theory Spec2Isabelle
  imports Main
begin

section \<open>Commands, replies and errors\<close>

text \<open>
  The package wraps a pooled connection of the redigo client. A command is a name with
  its arguments; the Go code passes arguments of type \<open>any\<close>, of which the variants
  string, int and byte slice occur in the functions embedded here.
\<close>

datatype arg = AStr string | AInt int | ABytes string

type_synonym command = "string \<times> arg list"

text \<open>
  Go errors: \<open>redis.ErrNil\<close>, any other error (by its message), and
  \<open>fmt.Errorf(msg + "%w", err)\<close>, which wraps \<open>err\<close>.
\<close>

datatype error = ErrNil | Err string | Errorf string error

text \<open>\<open>errors.Is(err, target)\<close>: \<open>err\<close> or an error it wraps is \<open>target\<close>.\<close>

fun errors_Is :: "error option \<Rightarrow> error \<Rightarrow> bool" where
  "errors_Is None t = False"
| "errors_Is (Some (Errorf msg e)) t = (Errorf msg e = t \<or> errors_Is (Some e) t)"
| "errors_Is (Some e) t = (e = t)"

text \<open>
  A reply as redigo hands it to the caller: nil, an integer (\<open>int64\<close>), a bulk string
  (\<open>[]byte\<close>), a simple string (\<open>string\<close>), an array (\<open>[]interface{}\<close>) or an
  error value (\<open>redis.Error\<close>).
\<close>

datatype reply = RNil | RInt int | RBulk string | RStatus string | RArray "reply list"
  | RError string

text \<open>
  \<open>conn.Do(name, args...)\<close> returns \<open>(reply, err)\<close>. The connection is a parameter
  of the model: a function from the store's state and a command to the result and the
  next state. \<open>ConnPool.Get()\<close> always returns a connection (a failure to dial shows
  as the error of \<open>Do\<close>); \<open>ConnPool.GetContext(ctx)\<close> returns a connection or an
  error.
\<close>

type_synonym result = "reply \<times> error option"

type_synonym 'st conn = "'st \<Rightarrow> command \<Rightarrow> result \<times> 'st"

text \<open>A Go panic (index out of range, failed type assertion) is not a return value.\<close>

datatype 'a outcome = Returns 'a | Panics

section \<open>The reply helpers of redigo\<close>

text \<open>
  The conversions \<open>redis.Bool\<close>, \<open>redis.Int\<close>, \<open>redis.String\<close>,
  \<open>redis.Bytes\<close>, \<open>redis.Values\<close> and \<open>redis.Strings\<close> belong to the redigo
  library, not to this repository. They are written out after redigo's documentation
  (reply.go), each returning Go's pair of the zero or converted value and the error.
\<close>

definition strconv_ParseBool :: "string \<Rightarrow> bool \<times> error option" where
  "strconv_ParseBool s =
     (if s \<in> set [''1'', ''t'', ''T'', ''TRUE'', ''true'', ''True''] then (True, None)
      else if s \<in> set [''0'', ''f'', ''F'', ''FALSE'', ''false'', ''False''] then (False, None)
      else (False, Some (Err ''strconv.ParseBool: invalid syntax'')))"

definition digit_val :: "char \<Rightarrow> int option" where
  "digit_val c =
     (let n = (of_char c :: int) in if 48 \<le> n \<and> n \<le> 57 then Some (n - 48) else None)"

fun parse_digits :: "int \<Rightarrow> string \<Rightarrow> int option" where
  "parse_digits acc [] = Some acc"
| "parse_digits acc (c # cs) =
     (case digit_val c of None \<Rightarrow> None | Some d \<Rightarrow> parse_digits (acc * 10 + d) cs)"

text \<open>\<open>strconv.ParseInt(s, 10, 0)\<close> on a 64-bit platform.\<close>

definition strconv_ParseInt :: "string \<Rightarrow> int \<times> error option" where
  "strconv_ParseInt s =
     (let neg = (s \<noteq> [] \<and> hd s = CHR ''-'');
          ds = (if s \<noteq> [] \<and> (hd s = CHR ''-'' \<or> hd s = CHR ''+'') then tl s else s)
      in if ds = [] then (0, Some (Err ''strconv.ParseInt: invalid syntax''))
         else case parse_digits 0 ds of
           None \<Rightarrow> (0, Some (Err ''strconv.ParseInt: invalid syntax''))
         | Some n \<Rightarrow>
             if \<not> neg \<and> 2 ^ 63 \<le> n
               then (2 ^ 63 - 1, Some (Err ''strconv.ParseInt: value out of range''))
             else if neg \<and> 2 ^ 63 < n
               then (- (2 ^ 63), Some (Err ''strconv.ParseInt: value out of range''))
             else (if neg then - n else n, None))"

fun redis_Bool :: "result \<Rightarrow> bool \<times> error option" where
  "redis_Bool (r, Some e) = (False, Some e)"
| "redis_Bool (RInt n, None) = (n \<noteq> 0, None)"
| "redis_Bool (RBulk s, None) = strconv_ParseBool s"
| "redis_Bool (RNil, None) = (False, Some ErrNil)"
| "redis_Bool (RError s, None) = (False, Some (Err s))"
| "redis_Bool (r, None) = (False, Some (Err ''redigo: unexpected type for Bool''))"

fun redis_Int :: "result \<Rightarrow> int \<times> error option" where
  "redis_Int (r, Some e) = (0, Some e)"
| "redis_Int (RInt n, None) = (n, None)"
| "redis_Int (RBulk s, None) = strconv_ParseInt s"
| "redis_Int (RNil, None) = (0, Some ErrNil)"
| "redis_Int (RError s, None) = (0, Some (Err s))"
| "redis_Int (r, None) = (0, Some (Err ''redigo: unexpected type for Int''))"

fun redis_String :: "result \<Rightarrow> string \<times> error option" where
  "redis_String (r, Some e) = ('''', Some e)"
| "redis_String (RBulk s, None) = (s, None)"
| "redis_String (RStatus s, None) = (s, None)"
| "redis_String (RNil, None) = ('''', Some ErrNil)"
| "redis_String (RError s, None) = ('''', Some (Err s))"
| "redis_String (r, None) = ('''', Some (Err ''redigo: unexpected type for String''))"

text \<open>A byte slice is \<open>None\<close> when it is Go's nil slice.\<close>

fun redis_Bytes :: "result \<Rightarrow> string option \<times> error option" where
  "redis_Bytes (r, Some e) = (None, Some e)"
| "redis_Bytes (RBulk s, None) = (Some s, None)"
| "redis_Bytes (RStatus s, None) = (Some s, None)"
| "redis_Bytes (RNil, None) = (None, Some ErrNil)"
| "redis_Bytes (RError s, None) = (None, Some (Err s))"
| "redis_Bytes (r, None) = (None, Some (Err ''redigo: unexpected type for Bytes''))"

fun redis_Values :: "result \<Rightarrow> reply list \<times> error option" where
  "redis_Values (r, Some e) = ([], Some e)"
| "redis_Values (RArray xs, None) = (xs, None)"
| "redis_Values (RNil, None) = ([], Some ErrNil)"
| "redis_Values (RError s, None) = ([], Some (Err s))"
| "redis_Values (r, None) = ([], Some (Err ''redigo: unexpected type for Values''))"

text \<open>
  \<open>redis.Strings\<close> allocates the result at the array's length and fills it up to the
  first element that is neither a string nor nil; nil elements stay the empty string.
\<close>

fun fill_strings :: "reply list \<Rightarrow> string list \<times> error option" where
  "fill_strings [] = ([], None)"
| "fill_strings (RBulk s # rs) = (let (ss, e) = fill_strings rs in (s # ss, e))"
| "fill_strings (RStatus s # rs) = (let (ss, e) = fill_strings rs in (s # ss, e))"
| "fill_strings (RNil # rs) = (let (ss, e) = fill_strings rs in ('''' # ss, e))"
| "fill_strings (r # rs) =
     (replicate (Suc (length rs)) '''',
      Some (Err ''redigo: unexpected element type for Strings''))"

fun redis_Strings :: "result \<Rightarrow> string list \<times> error option" where
  "redis_Strings (r, Some e) = ([], Some e)"
| "redis_Strings (RArray xs, None) = fill_strings xs"
| "redis_Strings (RNil, None) = ([], Some ErrNil)"
| "redis_Strings (RError s, None) = ([], Some (Err s))"
| "redis_Strings (r, None) = ([], Some (Err ''redigo: unexpected type for Strings''))"

section \<open>Options and the Manager\<close>

text \<open>
  The option struct and its defaults; \<open>time.Duration\<close> counts nanoseconds. An
  \<open>Option\<close> is a function that updates the struct.
\<close>

record options =
  network :: string
  address :: string
  password :: string
  prefix :: string
  maxIdle :: int
  maxActive :: int
  db :: int
  idleTimeout :: int

type_synonym Option = "options \<Rightarrow> options"

definition DefaultMaxIdle :: int where "DefaultMaxIdle = 30"
definition DefaultMaxActive :: int where "DefaultMaxActive = 100"
definition DefaultIdleTimeout :: int where "DefaultIdleTimeout = 30 * 1000000000"
definition DefaultDB :: int where "DefaultDB = 0"
definition DefaultNetwork :: string where "DefaultNetwork = ''tcp''"

definition WithAddress :: "string \<Rightarrow> Option" where
  "WithAddress a = (\<lambda>opt. opt\<lparr>address := a\<rparr>)"

definition WithNetwork :: "string \<Rightarrow> Option" where
  "WithNetwork n = (\<lambda>opt. opt\<lparr>network := n\<rparr>)"

definition WithPassword :: "string \<Rightarrow> Option" where
  "WithPassword p = (\<lambda>opt. opt\<lparr>password := p\<rparr>)"

definition WithPrefix :: "string \<Rightarrow> Option" where
  "WithPrefix p = (\<lambda>opt. opt\<lparr>prefix := p @ '':''\<rparr>)"

definition WithMaxActive :: "int \<Rightarrow> Option" where
  "WithMaxActive n = (\<lambda>opt. opt\<lparr>maxActive := n\<rparr>)"

definition WithDB :: "int \<Rightarrow> Option" where
  "WithDB n = (\<lambda>opt. opt\<lparr>db := n\<rparr>)"

definition WithMaxIdle :: "int \<Rightarrow> Option" where
  "WithMaxIdle n = (\<lambda>opt. opt\<lparr>maxIdle := n\<rparr>)"

definition WithIdleTimeout :: "int \<Rightarrow> Option" where
  "WithIdleTimeout d = (\<lambda>opt. opt\<lparr>idleTimeout := d\<rparr>)"

text \<open>
  \<open>Manager\<close> holds the pool and the prefix. The pool is the connection parameter of
  each operation below; the record keeps the prefix.
\<close>

record Manager =
  Prefix :: string

definition prefixKey :: "Manager \<Rightarrow> string \<Rightarrow> string" where
  "prefixKey m key = Prefix m @ key"

definition Do :: "'st conn \<Rightarrow> Manager \<Rightarrow> string \<Rightarrow> arg list \<Rightarrow> 'st \<Rightarrow> result \<times> 'st" where
  "Do conn m commandName args st = conn st (commandName, args)"

definition Ping :: "'st conn \<Rightarrow> Manager \<Rightarrow> 'st \<Rightarrow> error option \<times> 'st" where
  "Ping conn m st = (let (r, st') = Do conn m ''PING'' [] st in (snd r, st'))"

text \<open>\<open>New\<close> applies the options to the defaults in order, then pings once.\<close>

definition New :: "'st conn \<Rightarrow> Option list \<Rightarrow> 'st \<Rightarrow> (Manager \<times> error option) \<times> 'st" where
  "New conn opts st =
     (let opt = fold (\<lambda>f opt. f opt) opts
                  \<lparr>network = DefaultNetwork, address = [], password = [], prefix = [],
                   maxIdle = DefaultMaxIdle, maxActive = DefaultMaxActive, db = DefaultDB,
                   idleTimeout = DefaultIdleTimeout\<rparr>;
          m = \<lparr>Prefix = prefix opt\<rparr>;
          (err, st') = Ping conn m st
      in ((m, err), st'))"

section \<open>Key operations\<close>

definition Exists :: "'st conn \<Rightarrow> Manager \<Rightarrow> string \<Rightarrow> 'st \<Rightarrow> (bool \<times> error option) \<times> 'st" where
  "Exists conn m key st =
     (let (r, st') = conn st (''EXISTS'', [AStr (prefixKey m key)]) in (redis_Bool r, st'))"

definition Del :: "'st conn \<Rightarrow> Manager \<Rightarrow> string \<Rightarrow> 'st \<Rightarrow> (bool \<times> error option) \<times> 'st" where
  "Del conn m key st =
     (let (r, st') = conn st (''DEL'', [AStr (prefixKey m key)]) in (redis_Bool r, st'))"

definition Set :: "'st conn \<Rightarrow> Manager \<Rightarrow> string \<Rightarrow> arg \<Rightarrow> int \<Rightarrow> 'st \<Rightarrow> error option \<times> 'st" where
  "Set conn m key data ttl st =
     (let (r, st') =
        (if ttl > 0 then conn st (''SET'', [AStr (prefixKey m key), data, AStr ''EX'', AInt ttl])
         else conn st (''SET'', [AStr (prefixKey m key), data]))
      in (snd r, st'))"

definition SetString :: "'st conn \<Rightarrow> Manager \<Rightarrow> string \<Rightarrow> string \<Rightarrow> int \<Rightarrow> 'st \<Rightarrow> error option \<times> 'st" where
  "SetString conn m key str ttl st =
     (let (r, st') =
        (if ttl > 0 then conn st (''SET'', [AStr (prefixKey m key), AStr str, AStr ''EX'', AInt ttl])
         else conn st (''SET'', [AStr (prefixKey m key), AStr str]))
      in (snd r, st'))"

definition GetString :: "'st conn \<Rightarrow> Manager \<Rightarrow> string \<Rightarrow> 'st \<Rightarrow> (string \<times> error option) \<times> 'st" where
  "GetString conn m key st =
     (let (r, st1) = conn st (''EXISTS'', [AStr (prefixKey m key)]);
          (exist, err) = redis_Bool r
      in if \<not> exist \<or> err \<noteq> None then (('''', err), st1)
         else (let (r2, st2) = conn st1 (''GET'', [AStr (prefixKey m key)])
               in (redis_String r2, st2)))"

definition Get :: "'st conn \<Rightarrow> Manager \<Rightarrow> string \<Rightarrow> 'st \<Rightarrow> (string option \<times> error option) \<times> 'st" where
  "Get conn m key st =
     (let (r, st1) = conn st (''EXISTS'', [AStr (prefixKey m key)]);
          (exists, err) = redis_Bool r
      in if err \<noteq> None then ((None, err), st1)
         else if \<not> exists then ((None, Some ErrNil), st1)
         else (let (r2, st2) = conn st1 (''GET'', [AStr (prefixKey m key)])
               in (redis_Bytes r2, st2)))"

definition SetNX :: "'st conn \<Rightarrow> Manager \<Rightarrow> string \<Rightarrow> arg \<Rightarrow> int \<Rightarrow> 'st \<Rightarrow> (bool \<times> error option) \<times> 'st" where
  "SetNX conn m key v sec st =
     (let args = [AStr (prefixKey m key), v] @ [AStr ''NX''];
          args = (if sec > 0 then args @ [AStr ''EX'', AInt sec] else args);
          (r, st') = conn st (''SET'', args);
          (reply, err) = redis_String r
      in if errors_Is err ErrNil then ((False, None), st')
         else if err \<noteq> None then ((False, err), st')
         else ((reply = ''OK'', None), st'))"

definition Ttl :: "'st conn \<Rightarrow> Manager \<Rightarrow> string \<Rightarrow> 'st \<Rightarrow> (int \<times> error option) \<times> 'st" where
  "Ttl conn m key st =
     (let (r, st') = conn st (''TTL'', [AStr (prefixKey m key)]) in (redis_Int r, st'))"

definition Expire :: "'st conn \<Rightarrow> Manager \<Rightarrow> string \<Rightarrow> int \<Rightarrow> 'st \<Rightarrow> error option \<times> 'st" where
  "Expire conn m key ttl st =
     (let (r, st') = conn st (''EXPIRE'', [AStr (prefixKey m key), AInt ttl]) in (snd r, st'))"

definition Incr :: "'st conn \<Rightarrow> Manager \<Rightarrow> string \<Rightarrow> 'st \<Rightarrow> (int \<times> error option) \<times> 'st" where
  "Incr conn m key st =
     (let (r, st') = conn st (''INCR'', [AStr (prefixKey m key)]) in (redis_Int r, st'))"

definition IncrBy :: "'st conn \<Rightarrow> Manager \<Rightarrow> string \<Rightarrow> int \<Rightarrow> 'st \<Rightarrow> (int \<times> error option) \<times> 'st" where
  "IncrBy conn m key v st =
     (let (r, st') = conn st (''INCRBY'', [AStr (prefixKey m key), AInt v]) in (redis_Int r, st'))"

definition Decr :: "'st conn \<Rightarrow> Manager \<Rightarrow> string \<Rightarrow> 'st \<Rightarrow> (int \<times> error option) \<times> 'st" where
  "Decr conn m key st =
     (let (r, st') = conn st (''DECR'', [AStr (prefixKey m key)]) in (redis_Int r, st'))"

definition DecrBy :: "'st conn \<Rightarrow> Manager \<Rightarrow> string \<Rightarrow> int \<Rightarrow> 'st \<Rightarrow> (int \<times> error option) \<times> 'st" where
  "DecrBy conn m key v st =
     (let (r, st') = conn st (''DECRBY'', [AStr (prefixKey m key), AInt v]) in (redis_Int r, st'))"

definition HSet :: "'st conn \<Rightarrow> Manager \<Rightarrow> string \<Rightarrow> string \<Rightarrow> arg \<Rightarrow> 'st \<Rightarrow> error option \<times> 'st" where
  "HSet conn m key field v st =
     (let (r, st') = conn st (''HSET'', [AStr (prefixKey m key), AStr field, v]) in (snd r, st'))"

section \<open>Batch delete\<close>

text \<open>
  The \<open>for\<close> loop of \<open>BatchDel\<close>. Each pass issues SCAN, reads the cursor and the
  keys from the reply with their conversion errors dropped, issues DEL for the batch when it
  is not empty, and leaves the loop when the cursor is 0. \<open>reply[0]\<close> and \<open>reply[1]\<close>
  panic on a reply of fewer than two elements. The loop may run forever (a store that never
  answers with cursor 0), so it is a partial function: \<open>None\<close> is a run that does not
  return. Go's \<open>int\<close> is only compared with 0 and passed on, here and in the ttl
  arguments, so it is an unbounded integer in the model.
\<close>

partial_function (option) BatchDel_loop ::
  "'st conn \<Rightarrow> string \<Rightarrow> int \<Rightarrow> 'st \<Rightarrow> (error option outcome \<times> 'st) option" where
  "BatchDel_loop conn fullPattern cursor st =
     (case conn st (''SCAN'', [AInt cursor, AStr ''MATCH'', AStr fullPattern,
                               AStr ''COUNT'', AInt 100]) of
        (r, st1) \<Rightarrow>
          (case redis_Values r of
             (reply, Some err) \<Rightarrow>
               Some (Returns (Some (Errorf ''SCAN operation failed: '' err)), st1)
           | (reply, None) \<Rightarrow>
               if length reply < 2 then Some (Panics, st1)
               else
                 (let cursor' = fst (redis_Int (reply ! 0, None));
                      keys = fst (redis_Strings (reply ! 1, None))
                  in case (if length keys > 0
                           then (case conn st1 (''DEL'', map AStr keys) of
                                   (r2, st2) \<Rightarrow> (snd r2, st2))
                           else (None, st1)) of
                       (Some err, st2) \<Rightarrow>
                         Some (Returns (Some (Errorf ''DEL operation failed: '' err)), st2)
                     | (None, st2) \<Rightarrow>
                         if cursor' = 0 then Some (Returns None, st2)
                         else BatchDel_loop conn fullPattern cursor' st2)))"

declare BatchDel_loop.simps [code]

definition BatchDel :: "'st conn \<Rightarrow> Manager \<Rightarrow> string \<Rightarrow> 'st \<Rightarrow> (error option outcome \<times> 'st) option" where
  "BatchDel conn m pattern st =
     (let cursor = 0; fullPattern = ''*'' @ Prefix m @ pattern @ ''*''
      in BatchDel_loop conn fullPattern cursor st)"

text \<open>
  \<open>BatchDelWithContext\<close> returns the error of \<open>GetContext\<close> when it gets no
  connection; its loop is the same text as that of \<open>BatchDel\<close>.
\<close>

definition BatchDelWithContext ::
  "(error + 'st conn) \<Rightarrow> Manager \<Rightarrow> string \<Rightarrow> 'st \<Rightarrow> (error option outcome \<times> 'st) option" where
  "BatchDelWithContext pool m pattern st =
     (case pool of
        Inl err \<Rightarrow> Some (Returns (Some err), st)
      | Inr conn \<Rightarrow>
          (let cursor = 0; fullPattern = ''*'' @ Prefix m @ pattern @ ''*''
           in BatchDel_loop conn fullPattern cursor st))"

text \<open>
  \<open>BatchDel\<close> as src/redis.go has it: one KEYS listing, then one DEL for each key.
\<close>

fun del_each :: "'st conn \<Rightarrow> string list \<Rightarrow> 'st \<Rightarrow> error option \<times> 'st" where
  "del_each conn [] st = (None, st)"
| "del_each conn (k # ks) st =
     (let (r, st1) = conn st (''DEL'', [AStr k]);
          (b, err) = redis_Bool r
      in if err \<noteq> None then (err, st1) else del_each conn ks st1)"

definition BatchDel_redis_go :: "'st conn \<Rightarrow> Manager \<Rightarrow> string \<Rightarrow> 'st \<Rightarrow> error option \<times> 'st" where
  "BatchDel_redis_go conn m key st =
     (let (r, st1) = conn st (''KEYS'', [AStr (''*'' @ Prefix m @ key @ ''*'')]);
          (keys, err) = redis_Strings r
      in if err \<noteq> None then (err, st1) else del_each conn keys st1)"

section \<open>Operations with a context\<close>

definition GetStringWithContext ::
  "(error + 'st conn) \<Rightarrow> Manager \<Rightarrow> string \<Rightarrow> 'st \<Rightarrow> (string \<times> error option) \<times> 'st" where
  "GetStringWithContext pool m key st =
     (case pool of
        Inl err \<Rightarrow> (('''', Some err), st)
      | Inr conn \<Rightarrow>
          (let (r, st1) = conn st (''EXISTS'', [AStr (prefixKey m key)]);
               (exist, err) = redis_Bool r
           in if \<not> exist \<or> err \<noteq> None then (('''', err), st1)
              else (let (r2, st2) = conn st1 (''GET'', [AStr (prefixKey m key)])
                    in (redis_String r2, st2))))"

definition GetWithContext ::
  "(error + 'st conn) \<Rightarrow> Manager \<Rightarrow> string \<Rightarrow> 'st \<Rightarrow> (string option \<times> error option) \<times> 'st" where
  "GetWithContext pool m key st =
     (case pool of
        Inl err \<Rightarrow> ((None, Some err), st)
      | Inr conn \<Rightarrow>
          (let (r, st1) = conn st (''EXISTS'', [AStr (prefixKey m key)]);
               (exists, err) = redis_Bool r
           in if err \<noteq> None then ((None, err), st1)
              else if \<not> exists then ((None, Some ErrNil), st1)
              else (let (r2, st2) = conn st1 (''GET'', [AStr (prefixKey m key)])
                    in (redis_Bytes r2, st2))))"

definition SetNXWithContext ::
  "(error + 'st conn) \<Rightarrow> Manager \<Rightarrow> string \<Rightarrow> arg \<Rightarrow> int \<Rightarrow> 'st \<Rightarrow> (bool \<times> error option) \<times> 'st" where
  "SetNXWithContext pool m key v sec st =
     (case pool of
        Inl err \<Rightarrow> ((False, Some err), st)
      | Inr conn \<Rightarrow>
          (let args = [AStr (prefixKey m key), v] @ [AStr ''NX''];
               args = (if sec > 0 then args @ [AStr ''EX'', AInt sec] else args);
               (r, st') = conn st (''SET'', args);
               (reply, err) = redis_String r
           in if errors_Is err ErrNil then ((False, None), st')
              else if err \<noteq> None then ((False, err), st')
              else ((reply = ''OK'', None), st')))"

definition DecrWithContext ::
  "(error + 'st conn) \<Rightarrow> Manager \<Rightarrow> string \<Rightarrow> 'st \<Rightarrow> (int \<times> error option) \<times> 'st" where
  "DecrWithContext pool m key st =
     (case pool of
        Inl err \<Rightarrow> ((0, Some err), st)
      | Inr conn \<Rightarrow>
          (let (r, st') = conn st (''DECR'', [AStr (prefixKey m key)]) in (redis_Int r, st')))"

definition HSetWithContext ::
  "(error + 'st conn) \<Rightarrow> Manager \<Rightarrow> string \<Rightarrow> string \<Rightarrow> arg \<Rightarrow> 'st \<Rightarrow> error option \<times> 'st" where
  "HSetWithContext pool m key field v st =
     (case pool of
        Inl err \<Rightarrow> (Some err, st)
      | Inr conn \<Rightarrow>
          (let (r, st') = conn st (''HSET'', [AStr (prefixKey m key), AStr field, v])
           in (snd r, st')))"

section \<open>The hash-set of src/redis.go\<close>

text \<open>\<open>Hset(key, field, value string) (int, error)\<close> as src/redis.go has it.\<close>

definition Hset :: "'st conn \<Rightarrow> Manager \<Rightarrow> string \<Rightarrow> string \<Rightarrow> string \<Rightarrow> 'st \<Rightarrow> (int \<times> error option) \<times> 'st" where
  "Hset conn m key field v st =
     (let (r, st') = conn st (''INCR'', [AStr (prefixKey m key)]) in (redis_Int r, st'))"

section \<open>Publish and subscribe\<close>


text \<open>
  The channels arrive as \<open>...any\<close>; \<open>ch.(string)\<close> panics on the first one that is
  not a string. \<open>None\<close> is that panic.
\<close>

fun prefixed :: "string \<Rightarrow> arg list \<Rightarrow> arg list option" where
  "prefixed p [] = Some []"
| "prefixed p (AStr ch # chs) =
     (case prefixed p chs of None \<Rightarrow> None | Some rest \<Rightarrow> Some (AStr (p @ ch) # rest))"
| "prefixed p (ch # chs) = None"

text \<open>
  \<open>conn.Close()\<close> on a connection of the pool is redigo's: when the connection has sent
  SUBSCRIBE or PSUBSCRIBE (the attempt counts, also when the send failed), \<open>Close\<close> sends
  UNSUBSCRIBE, PUNSUBSCRIBE and ECHO with a sentinel, reads until the sentinel comes back,
  and returns the connection to the pool; otherwise it sends nothing. The sentinel is a
  sequence of random bytes drawn once in the process, so it is a parameter. The key
  operations and the batch delete issue none of these commands, so their deferred
  \<open>Close\<close> sends nothing and is not written out in their definitions (nor in \<open>Do\<close>,
  which is used here for PING).
\<close>

definition conn_Close :: "string \<Rightarrow> bool \<Rightarrow> 'st conn \<Rightarrow> 'st \<Rightarrow> 'st" where
  "conn_Close sentinel subscribing conn st =
     (if subscribing
      then (let (r1, st1) = conn st (''UNSUBSCRIBE'', []);
                (r2, st2) = conn st1 (''PUNSUBSCRIBE'', []);
                (r3, st3) = conn st2 (''ECHO'', [ABytes sentinel])
            in st3)
      else st)"

text \<open>
  The returned \<open>*redis.PubSubConn\<close> wraps the connection; \<open>closed\<close> tells whether
  that connection has been closed. \<open>psc.Subscribe\<close> sends the command and flushes, and
  only its error is looked at. \<open>Subscribe\<close> and \<open>PSubscribe\<close> defer
  \<open>conn.Close()\<close> before they convert the channels, so it runs on every way out: after
  a panic of the conversion (nothing has been sent) and after the subscription, whether it
  failed or not.
\<close>

datatype PubSubConn = PubSubConn (closed: bool)

definition Subscribe ::
  "string \<Rightarrow> 'st conn \<Rightarrow> Manager \<Rightarrow> arg list \<Rightarrow> 'st
     \<Rightarrow> (PubSubConn option \<times> error option) outcome \<times> 'st" where
  "Subscribe sentinel conn m channels st =
     (case prefixed (Prefix m) channels of
        None \<Rightarrow> (Panics, conn_Close sentinel False conn st)
      | Some prefixedChannels \<Rightarrow>
          (let (r, st1) = conn st (''SUBSCRIBE'', prefixedChannels);
               st2 = conn_Close sentinel True conn st1
           in case snd r of
                Some err \<Rightarrow> (Returns (None, Some err), st2)
              | None \<Rightarrow> (Returns (Some (PubSubConn True), None), st2)))"

definition PSubscribe ::
  "string \<Rightarrow> 'st conn \<Rightarrow> Manager \<Rightarrow> arg list \<Rightarrow> 'st
     \<Rightarrow> (PubSubConn option \<times> error option) outcome \<times> 'st" where
  "PSubscribe sentinel conn m patterns st =
     (case prefixed (Prefix m) patterns of
        None \<Rightarrow> (Panics, conn_Close sentinel False conn st)
      | Some prefixedPatterns \<Rightarrow>
          (let (r, st1) = conn st (''PSUBSCRIBE'', prefixedPatterns);
               st2 = conn_Close sentinel True conn st1
           in case snd r of
                Some err \<Rightarrow> (Returns (None, Some err), st2)
              | None \<Rightarrow> (Returns (Some (PubSubConn True), None), st2)))"


text \<open>
  The variants with a context defer nothing: they close the connection only when the
  subscription fails, and hand back an open \<open>PubSubConn\<close> otherwise. A panic of the
  conversion leaves the connection as it is.
\<close>

definition SubscribeWithContext ::
  "string \<Rightarrow> (error + 'st conn) \<Rightarrow> Manager \<Rightarrow> arg list \<Rightarrow> 'st
     \<Rightarrow> (PubSubConn option \<times> error option) outcome \<times> 'st" where
  "SubscribeWithContext sentinel pool m channels st =
     (case pool of
        Inl err \<Rightarrow> (Returns (None, Some err), st)
      | Inr conn \<Rightarrow>
          (case prefixed (Prefix m) channels of
             None \<Rightarrow> (Panics, st)
           | Some prefixedChannels \<Rightarrow>
               (let (r, st1) = conn st (''SUBSCRIBE'', prefixedChannels)
                in case snd r of
                     Some err \<Rightarrow> (Returns (None, Some err), conn_Close sentinel True conn st1)
                   | None \<Rightarrow> (Returns (Some (PubSubConn False), None), st1))))"


section \<open>JSON values\<close>

text \<open>
  \<open>json.Marshal\<close> and \<open>json.Unmarshal\<close> are parameters: \<open>marshal\<close> returns the
  bytes and the error, \<open>unmarshal\<close> takes the bytes and the target's old value and
  returns the target's new value and the error. \<open>GetJSON\<close> returns the target with
  its error.
\<close>

definition SetJSON ::
  "('a \<Rightarrow> string \<times> error option) \<Rightarrow> 'st conn \<Rightarrow> Manager \<Rightarrow> string \<Rightarrow> 'a \<Rightarrow> int \<Rightarrow> 'st
     \<Rightarrow> error option \<times> 'st" where
  "SetJSON marshal conn m key v expiration st =
     (let (jsonData, err) = marshal v
      in if err \<noteq> None then (err, st)
         else
           (let (r, st') =
              (if expiration > 0
               then conn st (''SET'', [AStr (prefixKey m key), ABytes jsonData,
                                      AStr ''EX'', AInt expiration])
               else conn st (''SET'', [AStr (Prefix m @ key), ABytes jsonData]))
            in (snd r, st')))"

definition GetJSON ::
  "(string \<Rightarrow> 'b \<Rightarrow> 'b \<times> error option) \<Rightarrow> 'st conn \<Rightarrow> Manager \<Rightarrow> string \<Rightarrow> 'b \<Rightarrow> 'st
     \<Rightarrow> ('b \<times> error option) \<times> 'st" where
  "GetJSON unmarshal conn m key v st =
     (let ((reply, err), st') = conn st (''GET'', [AStr (Prefix m @ key)])
      in if err \<noteq> None then ((v, err), st')
         else if reply = RNil then ((v, Some ErrNil), st')
         else
           (let (jsonData, err) = redis_Bytes (reply, err)
            in if err \<noteq> None then ((v, err), st')
               else (unmarshal (case jsonData of None \<Rightarrow> [] | Some b \<Rightarrow> b) v, st')))"

section \<open>Connections to run the operations on\<close>

text \<open>A connection that records, in order, every command passed to \<open>Do\<close>.\<close>

definition logged :: "'st conn \<Rightarrow> ('st \<times> command list) conn" where
  "logged conn = (\<lambda>(st, log) cmd. let (r, st') = conn st cmd in (r, (st', log @ [cmd])))"

text \<open>A connection that answers from a fixed list of results, one for each command.\<close>

definition scripted :: "(result list) conn" where
  "scripted rs cmd =
     (case rs of [] \<Rightarrow> ((RNil, Some (Err ''EOF'')), []) | r # rs' \<Rightarrow> (r, rs'))"

text \<open>
  A small key-value store to run the operations on: string keys and values in an
  association list, with SET (options NX and EX; expiry itself is not modelled), GET,
  EXISTS, DEL, KEYS and a SCAN that returns every match in one batch with cursor 0.
  Patterns are matched with \<open>*\<close> as the only metacharacter.
\<close>

fun glob :: "string \<Rightarrow> string \<Rightarrow> bool" where
  "glob [] [] = True"
| "glob [] (c # s) = False"
| "glob (p # ps) [] = (p = CHR ''*'' \<and> glob ps [])"
| "glob (p # ps) (c # s) =
     (if p = CHR ''*'' then glob ps (c # s) \<or> glob (p # ps) s else p = c \<and> glob ps s)"

function digits :: "nat \<Rightarrow> string" where
  "digits n =
     (if n < 10 then [char_of (48 + n)] else digits (n div 10) @ [char_of (48 + n mod 10)])"
  by pat_completeness auto
termination
  by (relation "measure id") auto

definition itoa :: "int \<Rightarrow> string" where
  "itoa i = (if i < 0 then CHR ''-'' # digits (nat (- i)) else digits (nat i))"

fun arg_bytes :: "arg \<Rightarrow> string" where
  "arg_bytes (AStr s) = s"
| "arg_bytes (ABytes s) = s"
| "arg_bytes (AInt i) = itoa i"

type_synonym kv = "(string \<times> string) list"

definition kv_conn :: "kv conn" where
  "kv_conn st cmd =
     (let name = fst cmd; args = snd cmd;
          k = (case args of [] \<Rightarrow> [] | a # _ \<Rightarrow> arg_bytes a)
      in if name = ''SET'' \<and> 2 \<le> length args then
           (if AStr ''NX'' \<in> set (drop 2 args) \<and> map_of st k \<noteq> None then ((RNil, None), st)
            else ((RStatus ''OK'', None),
                  (k, arg_bytes (args ! 1)) # filter (\<lambda>p. fst p \<noteq> k) st))
         else if name = ''GET'' \<and> length args = 1 then
           ((case map_of st k of None \<Rightarrow> RNil | Some v \<Rightarrow> RBulk v, None), st)
         else if name = ''EXISTS'' \<and> length args = 1 then
           ((RInt (if map_of st k = None then 0 else 1), None), st)
         else if name = ''DEL'' \<and> 1 \<le> length args then
           ((RInt (int (length (filter (\<lambda>p. fst p \<in> set (map arg_bytes args)) st))), None),
            filter (\<lambda>p. fst p \<notin> set (map arg_bytes args)) st)
         else if name = ''KEYS'' \<and> length args = 1 then
           ((RArray (map RBulk (filter (glob k) (map fst st))), None), st)
         else if name = ''SCAN'' \<and> length args = 5 then
           ((RArray [RBulk ''0'',
                     RArray (map RBulk (filter (glob (arg_bytes (args ! 2))) (map fst st)))],
             None), st)
         else ((RNil, Some (Err ''ERR unknown command or wrong number of arguments'')), st))"

text \<open>
  A fragment of Go's encoding/json, after its documentation, for values held in a variable
  of type \<open>any\<close>: nil, a boolean, an \<open>int64\<close>, and a \<open>float64\<close> that is a whole
  number of magnitude at most \<open>2 ^ 53\<close> (\<open>AnyFloat64 n\<close> is the float64 of n; such a
  number is held exactly and written without fraction or exponent). \<open>json.Marshal\<close>
  writes both kinds of number as the same digits. \<open>json.Unmarshal\<close> into a target of
  type \<open>any\<close> stores nil for null, a bool for true and false, and a \<open>float64\<close> for
  every number. Input outside the fragment (other JSON, surrounding white space, invalid
  text) is answered with an error.
\<close>

datatype go_any = AnyNil | AnyBool bool | AnyInt64 int | AnyFloat64 int

definition json_Marshal :: "go_any \<Rightarrow> string \<times> error option" where
  "json_Marshal v =
     (case v of
        AnyNil \<Rightarrow> (''null'', None)
      | AnyBool b \<Rightarrow> (if b then ''true'' else ''false'', None)
      | AnyInt64 n \<Rightarrow> (itoa n, None)
      | AnyFloat64 n \<Rightarrow> (itoa n, None))"

text \<open>A JSON integer literal: an optional minus sign, then 0 or digits that do not start with 0.\<close>

definition json_integer :: "string \<Rightarrow> int option" where
  "json_integer s =
     (let neg = (s \<noteq> [] \<and> hd s = CHR ''-'');
          ds = (if neg then tl s else s)
      in if ds = [] \<or> (hd ds = CHR ''0'' \<and> (neg \<or> 1 < length ds)) then None
         else case parse_digits 0 ds of
                None \<Rightarrow> None
              | Some n \<Rightarrow> Some (if neg then - n else n))"

definition json_Unmarshal :: "string \<Rightarrow> go_any \<Rightarrow> go_any \<times> error option" where
  "json_Unmarshal data v =
     (if data = ''null'' then (AnyNil, None)
      else if data = ''true'' then (AnyBool True, None)
      else if data = ''false'' then (AnyBool False, None)
      else case json_integer data of
             Some n \<Rightarrow>
               if \<bar>n\<bar> \<le> 2 ^ 53 then (AnyFloat64 n, None)
               else (v, Some (Err ''json: outside the fragment''))
           | None \<Rightarrow> (v, Some (Err ''json: invalid or outside the fragment'')))"

text \<open>The commands an operation issued, read off the final state of a logged run.\<close>

definition issued :: "'r \<times> ('st \<times> command list) \<Rightarrow> command list" where
  "issued run = snd (snd run)"

text \<open>
  Delivery on the store's side. The subscriptions a connection holds after the commands
  it has sent: SUBSCRIBE and PSUBSCRIBE add channels and patterns, UNSUBSCRIBE and
  PUNSUBSCRIBE remove the ones they name, or all of them when they name none. A message
  published on a channel reaches the connection when it holds the channel, or a pattern
  that matches the channel's name.
\<close>

definition subscribe_step :: "arg list \<times> arg list \<Rightarrow> command \<Rightarrow> arg list \<times> arg list" where
  "subscribe_step subs cmd =
     (let chans = fst subs; pats = snd subs; name = fst cmd; args = snd cmd
      in if name = ''SUBSCRIBE'' then (chans @ args, pats)
         else if name = ''UNSUBSCRIBE''
           then (if args = [] then [] else filter (\<lambda>c. c \<notin> set args) chans, pats)
         else if name = ''PSUBSCRIBE'' then (chans, pats @ args)
         else if name = ''PUNSUBSCRIBE''
           then (chans, if args = [] then [] else filter (\<lambda>p. p \<notin> set args) pats)
         else subs)"

definition subscriptions :: "command list \<Rightarrow> arg list \<times> arg list" where
  "subscriptions cmds = foldl subscribe_step ([], []) cmds"

definition delivers :: "command \<Rightarrow> command list \<Rightarrow> bool" where
  "delivers pub cmds =
     (fst pub = ''PUBLISH'' \<and> snd pub \<noteq> [] \<and>
      (arg_bytes (hd (snd pub)) \<in> set (map arg_bytes (fst (subscriptions cmds))) \<or>
       list_ex (\<lambda>pat. glob (arg_bytes pat) (arg_bytes (hd (snd pub))))
         (snd (subscriptions cmds))))"

text \<open>The key argument (the first argument) of each command of a list.\<close>

definition keys_sent :: "command list \<Rightarrow> arg list" where
  "keys_sent cmds = concat (map (\<lambda>cmd. take 1 (snd cmd)) cmds)"

section \<open>The scan-and-purge algorithm as the specification words it\<close>

text \<open>
  The cursor and the keys that \<open>BatchDel\<close> reads from the two elements of a SCAN reply.
\<close>

definition decoded_cursor :: "reply \<Rightarrow> int" where
  "decoded_cursor cur = fst (redis_Int (cur, None))"

definition decoded_keys :: "reply \<Rightarrow> string list" where
  "decoded_keys kr = fst (redis_Strings (kr, None))"

text \<open>
  A batch is what the store sends for one iteration: the cursor and the keys of the SCAN
  reply, and the reply to the DEL that follows when the batch has keys. \<open>answers\<close> is
  the sequence of results of a run over the batches in which no command fails.
\<close>

type_synonym batch = "reply \<times> reply \<times> reply"

fun answers :: "batch list \<Rightarrow> result list" where
  "answers [] = []"
| "answers ((cur, kr, dr) # bs) =
     (RArray [cur, kr], None) # (if decoded_keys kr = [] then [] else [(dr, None)]) @ answers bs"

text \<open>
  Section 4.3 of the specification: from the current cursor, issue the iteration command
  with the match pattern and the batch-size hint 100; if the batch is not empty issue a
  single delete command for all its keys; go on with the cursor received.
\<close>

fun spec_scan_and_purge :: "string \<Rightarrow> int \<Rightarrow> batch list \<Rightarrow> command list" where
  "spec_scan_and_purge pat cursor [] = []"
| "spec_scan_and_purge pat cursor ((cur, kr, dr) # bs) =
     (''SCAN'', [AInt cursor, AStr ''MATCH'', AStr pat, AStr ''COUNT'', AInt 100]) #
     (if decoded_keys kr = [] then [] else [(''DEL'', map AStr (decoded_keys kr))]) @
     spec_scan_and_purge pat (decoded_cursor cur) bs"

section \<open>Properties\<close>

lemma logged_apply:
  "logged conn (st, log) cmd = (fst (conn st cmd), (snd (conn st cmd), log @ [cmd]))"
  by (simp add: logged_def split_beta)

subsection \<open>Expiration arguments\<close>

text \<open>
  C9. With a ttl that is zero or negative, \<open>Set\<close>, \<open>SetString\<close>, \<open>SetJSON\<close> and
  \<open>SetNX\<close> issue one SET command with no expiration argument; with a strictly positive
  ttl the same command carries \<open>EX ttl\<close>. (\<open>SetJSON\<close> issues a command only when
  marshalling succeeds.)
\<close>

theorem ttl_attaches_expiration_only_if_positive:
  "(ttl \<le> 0 \<longrightarrow>
      issued (Set (logged conn) m k v ttl (st, [])) = [(''SET'', [AStr (Prefix m @ k), v])] \<and>
      issued (SetString (logged conn) m k s ttl (st, [])) =
        [(''SET'', [AStr (Prefix m @ k), AStr s])] \<and>
      issued (SetNX (logged conn) m k v ttl (st, [])) =
        [(''SET'', [AStr (Prefix m @ k), v, AStr ''NX''])] \<and>
      (marshal x = (bs, None) \<longrightarrow>
         issued (SetJSON marshal (logged conn) m k x ttl (st, [])) =
           [(''SET'', [AStr (Prefix m @ k), ABytes bs])])) \<and>
   (0 < ttl \<longrightarrow>
      issued (Set (logged conn) m k v ttl (st, [])) =
        [(''SET'', [AStr (Prefix m @ k), v, AStr ''EX'', AInt ttl])] \<and>
      issued (SetString (logged conn) m k s ttl (st, [])) =
        [(''SET'', [AStr (Prefix m @ k), AStr s, AStr ''EX'', AInt ttl])] \<and>
      issued (SetNX (logged conn) m k v ttl (st, [])) =
        [(''SET'', [AStr (Prefix m @ k), v, AStr ''NX'', AStr ''EX'', AInt ttl])] \<and>
      (marshal x = (bs, None) \<longrightarrow>
         issued (SetJSON marshal (logged conn) m k x ttl (st, [])) =
           [(''SET'', [AStr (Prefix m @ k), ABytes bs, AStr ''EX'', AInt ttl])]))"
  by (simp add: issued_def Set_def SetString_def SetNX_def SetJSON_def prefixKey_def
      logged_apply split_beta Let_def)

theorem ttl_attaches_expiration_only_if_positive_witness:
  "issued (Set (logged kv_conn) \<lparr>Prefix = ''p:''\<rparr> ''k'' (AStr ''v'') (- 5) ([], [])) =
     [(''SET'', [AStr ''p:k'', AStr ''v''])] \<and>
   issued (SetJSON (\<lambda>x. (x, None)) (logged kv_conn) \<lparr>Prefix = ''p:''\<rparr> ''k'' ''7'' (- 5) ([], [])) =
     [(''SET'', [AStr ''p:k'', ABytes ''7''])] \<and>
   issued (SetNX (logged kv_conn) \<lparr>Prefix = ''p:''\<rparr> ''k'' (AStr ''v'') 60 ([], [])) =
     [(''SET'', [AStr ''p:k'', AStr ''v'', AStr ''NX'', AStr ''EX'', AInt 60])] \<and>
   issued (SetJSON (\<lambda>x. (x, None)) (logged kv_conn) \<lparr>Prefix = ''p:''\<rparr> ''k'' ''7'' 60 ([], [])) =
     [(''SET'', [AStr ''p:k'', ABytes ''7'', AStr ''EX'', AInt 60])]"
  using ttl_attaches_expiration_only_if_positive
          [of "- 5" kv_conn "\<lparr>Prefix = ''p:''\<rparr>" "''k''" "AStr ''v''" "[]" "''s''"
              "(\<lambda>x. (x, None))" "''7''" "''7''"]
        ttl_attaches_expiration_only_if_positive
          [of 60 kv_conn "\<lparr>Prefix = ''p:''\<rparr>" "''k''" "AStr ''v''" "[]" "''s''"
              "(\<lambda>x. (x, None))" "''7''" "''7''"]
  by simp

subsection \<open>Conditional set\<close>

lemma redis_String_OK:
  "redis_String r = (''OK'', None) \<longleftrightarrow> r = (RStatus ''OK'', None) \<or> r = (RBulk ''OK'', None)"
  by (cases r rule: redis_String.cases) auto

text \<open>
  C3. When the store answers the SET ... NX command of \<open>SetNX\<close> (or of
  \<open>SetNXWithContext\<close>) with a nil reply, the operation returns \<open>(false, nil)\<close>; it
  returns \<open>(true, nil)\<close> exactly when the reply is the string OK.
\<close>

theorem SetNX_not_set_is_false_without_error:
  "(conn st (''SET'', [AStr (Prefix m @ k), v, AStr ''NX''] @
                     (if 0 < sec then [AStr ''EX'', AInt sec] else [])) = ((RNil, None), st')
      \<longrightarrow> SetNX conn m k v sec st = ((False, None), st') \<and>
          SetNXWithContext (Inr conn) m k v sec st = ((False, None), st')) \<and>
   (fst (SetNX conn m k v sec st) = (True, None) \<longleftrightarrow>
      fst (conn st (''SET'', [AStr (Prefix m @ k), v, AStr ''NX''] @
                     (if 0 < sec then [AStr ''EX'', AInt sec] else [])))
        \<in> {(RStatus ''OK'', None), (RBulk ''OK'', None)}) \<and>
   (fst (SetNXWithContext (Inr conn) m k v sec st) = (True, None) \<longleftrightarrow>
      fst (conn st (''SET'', [AStr (Prefix m @ k), v, AStr ''NX''] @
                     (if 0 < sec then [AStr ''EX'', AInt sec] else [])))
        \<in> {(RStatus ''OK'', None), (RBulk ''OK'', None)})"
proof -
  define cmd :: command where
    "cmd = (''SET'', [AStr (Prefix m @ k), v, AStr ''NX''] @
                     (if 0 < sec then [AStr ''EX'', AInt sec] else []))"
  have run: "SetNX conn m k v sec st =
      ((let (reply, err) = redis_String (fst (conn st cmd))
        in if errors_Is err ErrNil then (False, None)
           else if err \<noteq> None then (False, err)
           else (reply = ''OK'', None)), snd (conn st cmd))"
    by (auto simp: cmd_def SetNX_def prefixKey_def split_beta Let_def)
  have ctx: "SetNXWithContext (Inr conn) m k v sec st = SetNX conn m k v sec st"
    by (simp add: SetNX_def SetNXWithContext_def)
  have nil: "conn st cmd = ((RNil, None), st') \<longrightarrow> SetNX conn m k v sec st = ((False, None), st')"
    by (simp add: run)
  have "fst (SetNX conn m k v sec st) = (True, None) \<longleftrightarrow>
      redis_String (fst (conn st cmd)) = (''OK'', None)"
    by (cases "redis_String (fst (conn st cmd))") (auto simp: run)
  then have ok: "fst (SetNX conn m k v sec st) = (True, None) \<longleftrightarrow>
      fst (conn st cmd) \<in> {(RStatus ''OK'', None), (RBulk ''OK'', None)}"
    by (simp add: redis_String_OK)
  show ?thesis
    unfolding ctx cmd_def [symmetric] using nil ok by blast
qed

theorem SetNX_not_set_is_false_without_error_witness:
  "SetNX kv_conn \<lparr>Prefix = ''p:''\<rparr> ''k'' (AStr ''v'') 0 [(''p:k'', ''old'')] =
     ((False, None), [(''p:k'', ''old'')]) \<and>
   SetNXWithContext (Inr kv_conn) \<lparr>Prefix = ''p:''\<rparr> ''k'' (AStr ''v'') 0 [(''p:k'', ''old'')] =
     ((False, None), [(''p:k'', ''old'')]) \<and>
   fst (SetNX kv_conn \<lparr>Prefix = ''p:''\<rparr> ''k'' (AStr ''v'') 0 []) = (True, None)"
  using SetNX_not_set_is_false_without_error
          [of kv_conn "[(''p:k'', ''old'')]" "\<lparr>Prefix = ''p:''\<rparr>" "''k''" "AStr ''v''" 0
              "[(''p:k'', ''old'')]"]
        SetNX_not_set_is_false_without_error
          [of kv_conn "[]" "\<lparr>Prefix = ''p:''\<rparr>" "''k''" "AStr ''v''" 0 "[]"]
  by (simp add: kv_conn_def)

subsection \<open>Reading bytes\<close>

text \<open>
  C8. When the store's answer to EXISTS reads as false (the integer 0), \<open>Get\<close> and
  \<open>GetWithContext\<close> return the nil byte slice with \<open>ErrNil\<close>, and EXISTS is the only
  command they issue: the read is not attempted.
\<close>

theorem Get_absent_key_is_ErrNil:
  "redis_Bool (fst (conn st (''EXISTS'', [AStr (Prefix m @ k)]))) = (False, None) \<Longrightarrow>
     Get conn m k st = ((None, Some ErrNil), snd (conn st (''EXISTS'', [AStr (Prefix m @ k)]))) \<and>
     GetWithContext (Inr conn) m k st =
       ((None, Some ErrNil), snd (conn st (''EXISTS'', [AStr (Prefix m @ k)]))) \<and>
     issued (Get (logged conn) m k (st, [])) = [(''EXISTS'', [AStr (Prefix m @ k)])] \<and>
     issued (GetWithContext (Inr (logged conn)) m k (st, [])) =
       [(''EXISTS'', [AStr (Prefix m @ k)])]"
  by (simp add: Get_def GetWithContext_def prefixKey_def issued_def logged_apply split_beta)

theorem Get_absent_key_is_ErrNil_witness:
  "Get kv_conn \<lparr>Prefix = ''p:''\<rparr> ''k'' [] = ((None, Some ErrNil), []) \<and>
   GetWithContext (Inr kv_conn) \<lparr>Prefix = ''p:''\<rparr> ''k'' [] = ((None, Some ErrNil), []) \<and>
   issued (Get (logged kv_conn) \<lparr>Prefix = ''p:''\<rparr> ''k'' ([], [])) =
     [(''EXISTS'', [AStr ''p:k''])]"
  using Get_absent_key_is_ErrNil [of kv_conn "[]" "\<lparr>Prefix = ''p:''\<rparr>" "''k''"]
  by (simp add: kv_conn_def)

subsection \<open>Hash set\<close>

text \<open>
  C5. \<open>Hset\<close> of src/redis.go, called with key k, field f and value v on a Manager with
  prefix p:, issues INCR p:k and returns the counter, not HSET p:k f v. \<open>HSet\<close> and
  \<open>HSetWithContext\<close> issue HSET p:k f v, and \<open>Decr\<close> and \<open>DecrWithContext\<close> issue
  DECR p:k.
\<close>

theorem Hset_issues_INCR:
  "Hset (logged scripted) \<lparr>Prefix = ''p:''\<rparr> ''k'' ''f'' ''v'' ([(RInt 1, None)], []) =
     ((1, None), ([], [(''INCR'', [AStr ''p:k''])])) \<and>
   issued (Hset (logged scripted) \<lparr>Prefix = ''p:''\<rparr> ''k'' ''f'' ''v'' ([(RInt 1, None)], [])) \<noteq>
     [(''HSET'', [AStr ''p:k'', AStr ''f'', AStr ''v''])] \<and>
   issued (HSet (logged scripted) \<lparr>Prefix = ''p:''\<rparr> ''k'' ''f'' (AStr ''v'') ([(RInt 1, None)], [])) =
     [(''HSET'', [AStr ''p:k'', AStr ''f'', AStr ''v''])] \<and>
   issued (HSetWithContext (Inr (logged scripted)) \<lparr>Prefix = ''p:''\<rparr> ''k'' ''f'' (AStr ''v'')
             ([(RInt 1, None)], [])) =
     [(''HSET'', [AStr ''p:k'', AStr ''f'', AStr ''v''])] \<and>
   issued (Decr (logged scripted) \<lparr>Prefix = ''p:''\<rparr> ''k'' ([(RInt 1, None)], [])) =
     [(''DECR'', [AStr ''p:k''])] \<and>
   issued (DecrWithContext (Inr (logged scripted)) \<lparr>Prefix = ''p:''\<rparr> ''k'' ([(RInt 1, None)], [])) =
     [(''DECR'', [AStr ''p:k''])]"
  by (simp add: Hset_def HSet_def HSetWithContext_def Decr_def DecrWithContext_def prefixKey_def
      issued_def logged_def scripted_def)

subsection \<open>Reading strings\<close>

text \<open>
  \<open>GetString\<close> on an absent key and on a key that holds the empty string returns the
  same pair: the empty string and no error.
\<close>

theorem GetString_absent_equals_empty:
  "fst (GetString kv_conn \<lparr>Prefix = ''p:''\<rparr> ''k'' []) = ('''', None) \<and>
   fst (GetString kv_conn \<lparr>Prefix = ''p:''\<rparr> ''k'' [(''p:k'', '''')]) = ('''', None) \<and>
   fst (GetStringWithContext (Inr kv_conn) \<lparr>Prefix = ''p:''\<rparr> ''k'' []) = ('''', None) \<and>
   fst (GetStringWithContext (Inr kv_conn) \<lparr>Prefix = ''p:''\<rparr> ''k'' [(''p:k'', '''')]) =
     ('''', None)"
  by (simp add: GetString_def GetStringWithContext_def prefixKey_def kv_conn_def)

text \<open>
  C4, amended. \<open>GetString\<close> first issues EXISTS. When the key exists it then issues GET
  on the same key and returns the reply converted by \<open>redis.String\<close>: two round trips.
  When EXISTS reports false or fails it returns the empty string with the error of the
  check, which is nil for an absent key, and issues no GET. \<open>GetStringWithContext\<close>
  does the same on the connection it got.
\<close>

theorem GetString_checks_then_reads:
  "(redis_Bool (fst (conn st (''EXISTS'', [AStr (Prefix m @ k)]))) = (True, None) \<longrightarrow>
      GetString conn m k st =
        (let (r, st1) = conn st (''EXISTS'', [AStr (Prefix m @ k)]);
             (r2, st2) = conn st1 (''GET'', [AStr (Prefix m @ k)])
         in (redis_String r2, st2)) \<and>
      issued (GetString (logged conn) m k (st, [])) =
        [(''EXISTS'', [AStr (Prefix m @ k)]), (''GET'', [AStr (Prefix m @ k)])]) \<and>
   (redis_Bool (fst (conn st (''EXISTS'', [AStr (Prefix m @ k)]))) = (False, err) \<longrightarrow>
      GetString conn m k st = (('''', err), snd (conn st (''EXISTS'', [AStr (Prefix m @ k)]))) \<and>
      issued (GetString (logged conn) m k (st, [])) = [(''EXISTS'', [AStr (Prefix m @ k)])]) \<and>
   GetStringWithContext (Inr conn) m k st = GetString conn m k st"
  by (simp add: GetString_def GetStringWithContext_def prefixKey_def issued_def logged_apply
      split_beta)

theorem GetString_checks_then_reads_witness:
  "GetString kv_conn \<lparr>Prefix = ''p:''\<rparr> ''k'' [(''p:k'', ''v'')] = ((''v'', None), [(''p:k'', ''v'')]) \<and>
   issued (GetString (logged kv_conn) \<lparr>Prefix = ''p:''\<rparr> ''k'' ([(''p:k'', ''v'')], [])) =
     [(''EXISTS'', [AStr ''p:k'']), (''GET'', [AStr ''p:k''])] \<and>
   GetString kv_conn \<lparr>Prefix = ''p:''\<rparr> ''k'' [] = (('''', None), []) \<and>
   issued (GetString (logged kv_conn) \<lparr>Prefix = ''p:''\<rparr> ''k'' ([], [])) =
     [(''EXISTS'', [AStr ''p:k''])]"
  using GetString_checks_then_reads
          [of kv_conn "[(''p:k'', ''v'')]" "\<lparr>Prefix = ''p:''\<rparr>" "''k''" None]
        GetString_checks_then_reads [of kv_conn "[]" "\<lparr>Prefix = ''p:''\<rparr>" "''k''" None]
  by (simp add: kv_conn_def)

subsection \<open>Batch delete\<close>

text \<open>One pass of the loop, for each way it can go.\<close>

lemma BatchDel_loop_scan_fails:
  assumes "conn st (''SCAN'', [AInt c, AStr ''MATCH'', AStr pat, AStr ''COUNT'', AInt 100]) = (r, st1)"
    and "snd (redis_Values r) = Some e"
  shows "BatchDel_loop conn pat c st = Some (Returns (Some (Errorf ''SCAN operation failed: '' e)), st1)"
  using assms by (subst BatchDel_loop.simps) (auto split: prod.splits option.splits)

lemma BatchDel_loop_no_keys:
  assumes "conn st (''SCAN'', [AInt c, AStr ''MATCH'', AStr pat, AStr ''COUNT'', AInt 100]) =
             ((RArray [cur, kr], None), st1)"
    and "decoded_keys kr = []"
  shows "BatchDel_loop conn pat c st =
           (if decoded_cursor cur = 0 then Some (Returns None, st1)
            else BatchDel_loop conn pat (decoded_cursor cur) st1)"
  using assms
  by (subst BatchDel_loop.simps) (simp add: decoded_keys_def decoded_cursor_def Let_def)

lemma BatchDel_loop_del_ok:
  assumes "conn st (''SCAN'', [AInt c, AStr ''MATCH'', AStr pat, AStr ''COUNT'', AInt 100]) =
             ((RArray [cur, kr], None), st1)"
    and "decoded_keys kr \<noteq> []"
    and "conn st1 (''DEL'', map AStr (decoded_keys kr)) = ((dr, None), st2)"
  shows "BatchDel_loop conn pat c st =
           (if decoded_cursor cur = 0 then Some (Returns None, st2)
            else BatchDel_loop conn pat (decoded_cursor cur) st2)"
  using assms
  by (subst BatchDel_loop.simps) (simp add: decoded_keys_def decoded_cursor_def Let_def)

lemma BatchDel_loop_del_fails:
  assumes "conn st (''SCAN'', [AInt c, AStr ''MATCH'', AStr pat, AStr ''COUNT'', AInt 100]) =
             ((RArray [cur, kr], None), st1)"
    and "decoded_keys kr \<noteq> []"
    and "conn st1 (''DEL'', map AStr (decoded_keys kr)) = ((dr, Some e), st2)"
  shows "BatchDel_loop conn pat c st =
           Some (Returns (Some (Errorf ''DEL operation failed: '' e)), st2)"
  using assms
  by (subst BatchDel_loop.simps) (simp add: decoded_keys_def decoded_cursor_def Let_def)

lemma logged_scripted_Cons:
  "logged scripted (r # rs, log) cmd = (r, (rs, log @ [cmd]))"
  by (simp add: logged_def scripted_def)

lemma BatchDel_loop_batch:
  "BatchDel_loop (logged scripted) pat c (answers ((cur, kr, dr) # bs) @ rest, log) =
     (if decoded_cursor cur = 0
      then Some (Returns None,
                 (answers bs @ rest, log @ spec_scan_and_purge pat c [(cur, kr, dr)]))
      else BatchDel_loop (logged scripted) pat (decoded_cursor cur)
             (answers bs @ rest, log @ spec_scan_and_purge pat c [(cur, kr, dr)]))"
proof (cases "decoded_keys kr = []")
  case True
  let ?scan = "(''SCAN'', [AInt c, AStr ''MATCH'', AStr pat, AStr ''COUNT'', AInt 100])"
  have "logged scripted (answers ((cur, kr, dr) # bs) @ rest, log) ?scan =
          ((RArray [cur, kr], None), (answers bs @ rest, log @ [?scan]))"
    using True by (simp add: logged_scripted_Cons)
  from BatchDel_loop_no_keys [where conn = "logged scripted", OF this True] show ?thesis
    using True by simp
next
  case False
  let ?scan = "(''SCAN'', [AInt c, AStr ''MATCH'', AStr pat, AStr ''COUNT'', AInt 100])"
  let ?del = "(''DEL'', map AStr (decoded_keys kr))"
  have s1: "logged scripted (answers ((cur, kr, dr) # bs) @ rest, log) ?scan =
          ((RArray [cur, kr], None), ((dr, None) # answers bs @ rest, log @ [?scan]))"
    using False by (simp add: logged_scripted_Cons)
  have s2: "logged scripted ((dr, None) # answers bs @ rest, log @ [?scan]) ?del =
          ((dr, None), (answers bs @ rest, (log @ [?scan]) @ [?del]))"
    by (simp add: logged_scripted_Cons)
  from BatchDel_loop_del_ok [where conn = "logged scripted", OF s1 False s2] show ?thesis
    using False by simp
qed

text \<open>The cursor in hand after the batches \<open>bs\<close>, starting from \<open>c\<close>.\<close>

lemma BatchDel_loop_through:
  assumes "\<forall>b \<in> set bs. decoded_cursor (fst b) \<noteq> 0"
  shows "BatchDel_loop (logged scripted) pat c (answers bs @ rest, log) =
           BatchDel_loop (logged scripted) pat (if bs = [] then c else decoded_cursor (fst (last bs)))
             (rest, log @ spec_scan_and_purge pat c bs)"
  using assms
proof (induction bs arbitrary: c log)
  case Nil
  then show ?case by simp
next
  case (Cons b bs)
  obtain cur kr dr where b: "b = (cur, kr, dr)" by (cases b)
  from Cons.prems have nz: "decoded_cursor cur \<noteq> 0"
    and rest: "\<forall>b \<in> set bs. decoded_cursor (fst b) \<noteq> 0"
    by (simp_all add: b)
  have "BatchDel_loop (logged scripted) pat c (answers (b # bs) @ rest, log) =
          BatchDel_loop (logged scripted) pat (decoded_cursor cur)
            (answers bs @ rest, log @ spec_scan_and_purge pat c [(cur, kr, dr)])"
    unfolding b using nz by (simp only: BatchDel_loop_batch if_False)
  also have "\<dots> =
          BatchDel_loop (logged scripted) pat
            (if bs = [] then decoded_cursor cur else decoded_cursor (fst (last bs)))
            (rest, (log @ spec_scan_and_purge pat c [(cur, kr, dr)]) @
                   spec_scan_and_purge pat (decoded_cursor cur) bs)"
    by (rule Cons.IH [OF rest])
  finally show ?case
    by (simp add: b)
qed

lemma answers_append: "answers (bs @ bs') = answers bs @ answers bs'"
  by (induction bs) auto

lemma spec_scan_and_purge_append:
  "spec_scan_and_purge pat c (bs @ bs') =
     spec_scan_and_purge pat c bs @
     spec_scan_and_purge pat (if bs = [] then c else decoded_cursor (fst (last bs))) bs'"
  by (induction bs arbitrary: c) auto

lemma BatchDel_loop_run:
  assumes "bs \<noteq> []"
    and "\<forall>b \<in> set (butlast bs). decoded_cursor (fst b) \<noteq> 0"
    and "decoded_cursor (fst (last bs)) = 0"
  shows "BatchDel_loop (logged scripted) pat c (answers bs @ rest, log) =
           Some (Returns None, (rest, log @ spec_scan_and_purge pat c bs))"
proof -
  obtain cur kr dr where l: "last bs = (cur, kr, dr)" by (cases "last bs")
  from assms(1) have bs: "bs = butlast bs @ [(cur, kr, dr)]"
    using l by (metis append_butlast_last_id)
  have a: "answers (butlast bs @ [(cur, kr, dr)]) @ rest =
             answers (butlast bs) @ (answers [(cur, kr, dr)] @ rest)"
    by (simp only: answers_append append_assoc)
  have z: "decoded_cursor cur = 0" using assms(3) l by simp
  have "BatchDel_loop (logged scripted) pat c (answers bs @ rest, log) =
          BatchDel_loop (logged scripted) pat
            (if butlast bs = [] then c else decoded_cursor (fst (last (butlast bs))))
            (answers [(cur, kr, dr)] @ rest, log @ spec_scan_and_purge pat c (butlast bs))"
    by (subst bs, subst a) (rule BatchDel_loop_through [OF assms(2)])
  also have "\<dots> = Some (Returns None, (rest, log @ spec_scan_and_purge pat c (butlast bs) @
       spec_scan_and_purge pat (if butlast bs = [] then c else decoded_cursor (fst (last (butlast bs))))
         [(cur, kr, dr)]))"
    using z BatchDel_loop_batch [where bs = "[]"] by simp
  also have "\<dots> = Some (Returns None, (rest, log @ spec_scan_and_purge pat c bs))"
    by (subst (2) bs) (simp only: spec_scan_and_purge_append)
  finally show ?thesis .
qed

lemma spec_scan_and_purge_name:
  "cmd \<in> set (spec_scan_and_purge pat c bs) \<Longrightarrow> fst cmd = ''SCAN'' \<or> fst cmd = ''DEL''"
  by (induction bs arbitrary: c) (auto split: if_splits)

lemma spec_scan_and_purge_names:
  "fst ` set (spec_scan_and_purge pat c bs) \<subseteq> {''SCAN'', ''DEL''}"
  using spec_scan_and_purge_name by fastforce

lemma BatchDelWithContext_Inr:
  "BatchDelWithContext (Inr conn) m p st = BatchDel conn m p st"
  by (simp add: BatchDelWithContext_def BatchDel_def)

text \<open>
  \<open>BatchDel\<close> of src/redis.go on a store with the keys p:a1, p:a2 and q:b: it issues one
  KEYS listing over the whole key-space and one DEL for each key found, and no SCAN.
\<close>

theorem BatchDel_redis_go_lists_all_keys:
  "issued (BatchDel_redis_go (logged kv_conn) \<lparr>Prefix = ''p:''\<rparr> ''a''
             ([(''p:a1'', ''x''), (''p:a2'', ''y''), (''q:b'', ''z'')], [])) =
     [(''KEYS'', [AStr ''*p:a*'']), (''DEL'', [AStr ''p:a1'']), (''DEL'', [AStr ''p:a2''])]"
  by (simp add: BatchDel_redis_go_def issued_def logged_apply kv_conn_def split_beta)

text \<open>
  C2, amended. \<open>BatchDel\<close> of part_001 and \<open>BatchDelWithContext\<close> build the pattern
  \<open>"*" + prefix + p + "*"\<close> and start from cursor 0. Over any non-empty sequence of
  batches whose decoded cursor is 0 for the last batch and for no earlier one, they return
  nil after issuing exactly the commands of the specification's algorithm: for each batch a
  SCAN with the cursor in hand, MATCH, the pattern and COUNT 100, then a single DEL of all the
  keys of the batch when it has keys, then the next SCAN with the cursor just received. They
  stop at the first cursor 0, leaving the rest of the store's answers unread, and every command
  is a SCAN or a DEL. (\<open>BatchDel\<close> of src/redis.go issues KEYS instead, as shown above.)
\<close>

theorem BatchDel_scans_and_purges:
  assumes "bs \<noteq> []"
    and "\<forall>b \<in> set (butlast bs). decoded_cursor (fst b) \<noteq> 0"
    and "decoded_cursor (fst (last bs)) = 0"
  shows "BatchDel (logged scripted) m p (answers bs @ rest, []) =
           Some (Returns None, (rest, spec_scan_and_purge (''*'' @ Prefix m @ p @ ''*'') 0 bs)) \<and>
         BatchDelWithContext (Inr (logged scripted)) m p (answers bs @ rest, []) =
           Some (Returns None, (rest, spec_scan_and_purge (''*'' @ Prefix m @ p @ ''*'') 0 bs)) \<and>
         fst ` set (spec_scan_and_purge (''*'' @ Prefix m @ p @ ''*'') 0 bs) \<subseteq> {''SCAN'', ''DEL''}"
  using BatchDel_loop_run [OF assms, of "''*'' @ Prefix m @ p @ ''*''" 0 rest "[]"]
  by (simp add: BatchDelWithContext_Inr BatchDel_def spec_scan_and_purge_names)

theorem BatchDel_scans_and_purges_witness:
  "BatchDel (logged scripted) \<lparr>Prefix = ''p:''\<rparr> ''a''
     ([(RArray [RBulk ''17'', RArray [RBulk ''p:a1'', RBulk ''p:a2'']], None), (RInt 2, None),
       (RArray [RBulk ''0'', RArray []], None)], []) =
   Some (Returns None,
         ([], [(''SCAN'', [AInt 0, AStr ''MATCH'', AStr ''*p:a*'', AStr ''COUNT'', AInt 100]),
               (''DEL'', [AStr ''p:a1'', AStr ''p:a2'']),
               (''SCAN'', [AInt 17, AStr ''MATCH'', AStr ''*p:a*'', AStr ''COUNT'', AInt 100])]))"
proof -
  have c17: "decoded_cursor (RBulk ''17'') = 17" and c0: "decoded_cursor (RBulk ''0'') = 0"
    by (simp_all add: decoded_cursor_def strconv_ParseInt_def digit_val_def)
  have k: "decoded_keys (RArray [RBulk ''p:a1'', RBulk ''p:a2'']) = [''p:a1'', ''p:a2'']"
    "decoded_keys (RArray []) = []"
    by (simp_all add: decoded_keys_def)
  show ?thesis
    using BatchDel_scans_and_purges
            [of "[(RBulk ''17'', RArray [RBulk ''p:a1'', RBulk ''p:a2''], RInt 2),
                  (RBulk ''0'', RArray [], RNil)]" "\<lparr>Prefix = ''p:''\<rparr>" "''a''" "[]"]
    by (simp add: c17 c0 k)
qed

text \<open>
  Not every failure of a SCAN step is returned. A SCAN reply whose first element is not a
  number and whose second is not an array fails both conversions; the errors are dropped,
  the cursor reads as 0 and the keys as none, and the run ends with nil after that one
  SCAN, leaving the store's next answer unread. A SCAN reply of a single element ends the
  run with a panic at \<open>reply[1]\<close>.
\<close>

theorem BatchDel_drops_decoding_errors:
  "snd (redis_Int (RBulk ''abc'', None)) \<noteq> None \<and>
   snd (redis_Strings (RInt 5, None)) \<noteq> None \<and>
   BatchDel (logged scripted) \<lparr>Prefix = ''p:''\<rparr> ''a''
     ([(RArray [RBulk ''abc'', RInt 5], None), (RArray [RBulk ''0'', RArray []], None)], []) =
   Some (Returns None,
         ([(RArray [RBulk ''0'', RArray []], None)],
          [(''SCAN'', [AInt 0, AStr ''MATCH'', AStr ''*p:a*'', AStr ''COUNT'', AInt 100])])) \<and>
   BatchDelWithContext (Inr (logged scripted)) \<lparr>Prefix = ''p:''\<rparr> ''a''
     ([(RArray [RBulk ''abc'', RInt 5], None), (RArray [RBulk ''0'', RArray []], None)], []) =
   Some (Returns None,
         ([(RArray [RBulk ''0'', RArray []], None)],
          [(''SCAN'', [AInt 0, AStr ''MATCH'', AStr ''*p:a*'', AStr ''COUNT'', AInt 100])])) \<and>
   BatchDel (logged scripted) \<lparr>Prefix = ''p:''\<rparr> ''a'' ([(RArray [RBulk ''17''], None)], []) =
   Some (Panics,
         ([], [(''SCAN'', [AInt 0, AStr ''MATCH'', AStr ''*p:a*'', AStr ''COUNT'', AInt 100])]))"
  by code_simp

text \<open>
  C6, amended. After any batches handled without failure, a SCAN that fails with an error
  of \<open>Do\<close> or with a reply that \<open>redis.Values\<close> rejects, or a DEL that fails with an
  error of \<open>Do\<close>, ends \<open>BatchDel\<close> and \<open>BatchDelWithContext\<close> at once: the result
  is that error wrapped with the name of the failed step, the commands issued are those of
  the earlier batches followed by the failed command and nothing else, and the store's later
  answers stay unread. No command undoes an earlier DEL.
\<close>

theorem BatchDel_aborts_on_first_failure:
  assumes "\<forall>b \<in> set bs. decoded_cursor (fst b) \<noteq> 0"
  shows
    "(snd (redis_Values r) = Some e \<longrightarrow>
        BatchDel (logged scripted) m p (answers bs @ r # rest, []) =
          Some (Returns (Some (Errorf ''SCAN operation failed: '' e)),
                (rest,
                 spec_scan_and_purge (''*'' @ Prefix m @ p @ ''*'') 0 bs @
                 [(''SCAN'', [AInt (if bs = [] then 0 else decoded_cursor (fst (last bs))),
                             AStr ''MATCH'', AStr (''*'' @ Prefix m @ p @ ''*''),
                             AStr ''COUNT'', AInt 100])]))) \<and>
     (decoded_keys kr \<noteq> [] \<longrightarrow>
        BatchDel (logged scripted) m p
          (answers bs @ (RArray [cur, kr], None) # (dr, Some e) # rest, []) =
          Some (Returns (Some (Errorf ''DEL operation failed: '' e)),
                (rest,
                 spec_scan_and_purge (''*'' @ Prefix m @ p @ ''*'') 0 bs @
                 [(''SCAN'', [AInt (if bs = [] then 0 else decoded_cursor (fst (last bs))),
                             AStr ''MATCH'', AStr (''*'' @ Prefix m @ p @ ''*''),
                             AStr ''COUNT'', AInt 100]),
                  (''DEL'', map AStr (decoded_keys kr))]))) \<and>
     BatchDelWithContext (Inr (logged scripted)) m p st = BatchDel (logged scripted) m p st"
proof -
  let ?pat = "''*'' @ Prefix m @ p @ ''*''"
  let ?c = "if bs = [] then 0 else decoded_cursor (fst (last bs))"
  let ?scan = "(''SCAN'', [AInt ?c, AStr ''MATCH'', AStr ?pat, AStr ''COUNT'', AInt 100])"
  let ?log = "spec_scan_and_purge ?pat 0 bs"
  have scan: "BatchDel (logged scripted) m p (answers bs @ r # rest, []) =
      Some (Returns (Some (Errorf ''SCAN operation failed: '' e)), (rest, ?log @ [?scan]))"
    if e: "snd (redis_Values r) = Some e"
  proof -
    have s: "logged scripted (r # rest, ?log) ?scan = (r, (rest, ?log @ [?scan]))"
      by (simp only: logged_scripted_Cons)
    have "BatchDel (logged scripted) m p (answers bs @ r # rest, []) =
            BatchDel_loop (logged scripted) ?pat ?c (r # rest, [] @ ?log)"
      unfolding BatchDel_def Let_def by (rule BatchDel_loop_through [OF assms])
    also have "\<dots> = Some (Returns (Some (Errorf ''SCAN operation failed: '' e)), (rest, ?log @ [?scan]))"
      using BatchDel_loop_scan_fails [where conn = "logged scripted", OF s e] by simp
    finally show ?thesis .
  qed
  have del: "BatchDel (logged scripted) m p
          (answers bs @ (RArray [cur, kr], None) # (dr, Some e) # rest, []) =
      Some (Returns (Some (Errorf ''DEL operation failed: '' e)),
            (rest, ?log @ [?scan, (''DEL'', map AStr (decoded_keys kr))]))"
    if k: "decoded_keys kr \<noteq> []"
  proof -
    let ?del = "(''DEL'', map AStr (decoded_keys kr))"
    have s1: "logged scripted ((RArray [cur, kr], None) # (dr, Some e) # rest, ?log) ?scan =
                ((RArray [cur, kr], None), ((dr, Some e) # rest, ?log @ [?scan]))"
      by (simp only: logged_scripted_Cons)
    have s2: "logged scripted ((dr, Some e) # rest, ?log @ [?scan]) ?del =
                ((dr, Some e), (rest, (?log @ [?scan]) @ [?del]))"
      by (simp only: logged_scripted_Cons)
    have "BatchDel (logged scripted) m p
            (answers bs @ (RArray [cur, kr], None) # (dr, Some e) # rest, []) =
            BatchDel_loop (logged scripted) ?pat ?c
              ((RArray [cur, kr], None) # (dr, Some e) # rest, [] @ ?log)"
      unfolding BatchDel_def Let_def by (rule BatchDel_loop_through [OF assms])
    also have "\<dots> = Some (Returns (Some (Errorf ''DEL operation failed: '' e)),
                           (rest, ?log @ [?scan, ?del]))"
      using BatchDel_loop_del_fails [where conn = "logged scripted", OF s1 k s2] by simp
    finally show ?thesis .
  qed
  show ?thesis
    using scan del by (simp only: BatchDelWithContext_Inr) blast
qed

theorem BatchDel_aborts_on_first_failure_witness:
  "BatchDel (logged scripted) \<lparr>Prefix = ''p:''\<rparr> ''a''
     ([(RArray [RBulk ''17'', RArray [RBulk ''p:a1'']], None), (RInt 1, None),
       (RNil, Some (Err ''connection reset'')),
       (RArray [RBulk ''0'', RArray []], None)], []) =
   Some (Returns (Some (Errorf ''SCAN operation failed: '' (Err ''connection reset''))),
         ([(RArray [RBulk ''0'', RArray []], None)],
          [(''SCAN'', [AInt 0, AStr ''MATCH'', AStr ''*p:a*'', AStr ''COUNT'', AInt 100]),
           (''DEL'', [AStr ''p:a1'']),
           (''SCAN'', [AInt 17, AStr ''MATCH'', AStr ''*p:a*'', AStr ''COUNT'', AInt 100])])) \<and>
   BatchDel (logged scripted) \<lparr>Prefix = ''p:''\<rparr> ''a''
     ([(RArray [RBulk ''17'', RArray [RBulk ''p:a1'']], None), (RInt 1, None),
       (RArray [RBulk ''23'', RArray [RBulk ''p:a2'']], None),
       (RNil, Some (Err ''READONLY'')),
       (RArray [RBulk ''0'', RArray []], None)], []) =
   Some (Returns (Some (Errorf ''DEL operation failed: '' (Err ''READONLY''))),
         ([(RArray [RBulk ''0'', RArray []], None)],
          [(''SCAN'', [AInt 0, AStr ''MATCH'', AStr ''*p:a*'', AStr ''COUNT'', AInt 100]),
           (''DEL'', [AStr ''p:a1'']),
           (''SCAN'', [AInt 17, AStr ''MATCH'', AStr ''*p:a*'', AStr ''COUNT'', AInt 100]),
           (''DEL'', [AStr ''p:a2''])]))"
proof -
  have c17: "decoded_cursor (RBulk ''17'') = 17"
    by (simp add: decoded_cursor_def strconv_ParseInt_def digit_val_def)
  have k: "decoded_keys (RArray [RBulk ''p:a1'']) = [''p:a1'']"
    "decoded_keys (RArray [RBulk ''p:a2'']) = [''p:a2'']"
    by (simp_all add: decoded_keys_def)
  show ?thesis
    using BatchDel_aborts_on_first_failure
            [of "[(RBulk ''17'', RArray [RBulk ''p:a1''], RInt 1)]"
                "(RNil, Some (Err ''connection reset''))" "Err ''connection reset''"
                "\<lparr>Prefix = ''p:''\<rparr>" "''a''" "[(RArray [RBulk ''0'', RArray []], None)]"
                "RArray [RBulk ''p:a2'']" "RBulk ''23''" RNil]
          BatchDel_aborts_on_first_failure
            [of "[(RBulk ''17'', RArray [RBulk ''p:a1''], RInt 1)]"
                "(RNil, Some (Err ''READONLY''))" "Err ''READONLY''"
                "\<lparr>Prefix = ''p:''\<rparr>" "''a''" "[(RArray [RBulk ''0'', RArray []], None)]"
                "RArray [RBulk ''p:a2'']" "RBulk ''23''" RNil]
    by (simp add: c17 k)
qed

subsection \<open>Prefixed keys\<close>

lemma New_WithPrefix:
  "fst (fst (New conn [WithPrefix p] st)) = \<lparr>Prefix = p @ '':''\<rparr>"
  by (simp add: New_def WithPrefix_def split_beta Let_def)

lemma map_of_filter_keep:
  "P k \<Longrightarrow> map_of (filter (\<lambda>p. P (fst p)) st) k = map_of st k"
  by (induction st) auto

lemma kv_Get:
  "fst (Get kv_conn m k st) =
     (case map_of st (Prefix m @ k) of None \<Rightarrow> (None, Some ErrNil) | Some v \<Rightarrow> (Some v, None))"
  by (simp add: Get_def prefixKey_def kv_conn_def split: option.splits)

lemma kv_Set_other:
  "k' \<noteq> Prefix m @ k \<Longrightarrow> map_of (snd (Set kv_conn m k v ttl st)) k' = map_of st k'"
  using map_of_filter_keep [of "\<lambda>x. x \<noteq> Prefix m @ k" k' st]
  by (simp add: Set_def prefixKey_def kv_conn_def Let_def)

lemma kv_Del_other:
  "k' \<noteq> Prefix m @ k \<Longrightarrow> map_of (snd (Del kv_conn m k st)) k' = map_of st k'"
  using map_of_filter_keep [of "\<lambda>x. x \<noteq> Prefix m @ k" k' st]
  by (simp add: Del_def prefixKey_def kv_conn_def Let_def)

text \<open>
  Two Managers with different prefixes can name the same store key: the one made with
  \<open>WithPrefix("a")\<close> at key b:x and the one made with \<open>WithPrefix("a:b")\<close> at key x.
  And the batch delete of one Manager reaches the keys of another: on a store that holds
  myapp:x for the Manager made with \<open>WithPrefix("myapp")\<close>, the Manager made with
  \<open>WithPrefix("app")\<close> deletes it with \<open>BatchDel("x")\<close>, whose pattern is
  \<open>*app:x*\<close>, and the other Manager's \<open>Get("x")\<close> turns from the value to
  \<open>ErrNil\<close>.
\<close>

theorem prefixes_overlap:
  "fst (fst (New scripted [WithPrefix ''a''] [(RStatus ''PONG'', None)])) = \<lparr>Prefix = ''a:''\<rparr> \<and>
   fst (fst (New scripted [WithPrefix ''a:b''] [(RStatus ''PONG'', None)])) = \<lparr>Prefix = ''a:b:''\<rparr> \<and>
   prefixKey \<lparr>Prefix = ''a:''\<rparr> ''b:x'' = prefixKey \<lparr>Prefix = ''a:b:''\<rparr> ''x'' \<and>
   fst (fst (New scripted [WithPrefix ''app''] [(RStatus ''PONG'', None)])) = \<lparr>Prefix = ''app:''\<rparr> \<and>
   fst (fst (New scripted [WithPrefix ''myapp''] [(RStatus ''PONG'', None)])) =
     \<lparr>Prefix = ''myapp:''\<rparr> \<and>
   fst (Get kv_conn \<lparr>Prefix = ''myapp:''\<rparr> ''x'' [(''myapp:x'', ''v'')]) = (Some ''v'', None) \<and>
   BatchDel (logged kv_conn) \<lparr>Prefix = ''app:''\<rparr> ''x'' ([(''myapp:x'', ''v'')], []) =
     Some (Returns None,
           ([], [(''SCAN'', [AInt 0, AStr ''MATCH'', AStr ''*app:x*'', AStr ''COUNT'', AInt 100]),
                 (''DEL'', [AStr ''myapp:x''])])) \<and>
   fst (Get kv_conn \<lparr>Prefix = ''myapp:''\<rparr> ''x'' []) = (None, Some ErrNil)"
  by code_simp

text \<open>
  C1, amended. Managers made with different arguments to \<open>WithPrefix\<close> have different
  prefixes. The operations on one key (\<open>Exists\<close>, \<open>Del\<close>, \<open>Ttl\<close>, \<open>Expire\<close>,
  \<open>Set\<close>, \<open>SetString\<close>, \<open>GetString\<close>, \<open>Get\<close>, \<open>SetNX\<close>, \<open>Incr\<close>,
  \<open>IncrBy\<close>, \<open>Decr\<close>, \<open>DecrBy\<close>, \<open>HSet\<close>, \<open>SetJSON\<close>, \<open>GetJSON\<close>) send
  no key but prefix + k. For Managers with different prefixes and the same logical key k the
  two store keys differ, and on the key-value store above a \<open>Set\<close> or \<open>Del\<close> of k
  through one Manager leaves what \<open>Get\<close> of k returns through the other unchanged.
\<close>

theorem point_operations_keep_to_their_prefix:
  "set (keys_sent (issued (Exists (logged conn) a k (st, [])))) \<subseteq> {AStr (Prefix a @ k)} \<and>
   set (keys_sent (issued (Del (logged conn) a k (st, [])))) \<subseteq> {AStr (Prefix a @ k)} \<and>
   set (keys_sent (issued (Ttl (logged conn) a k (st, [])))) \<subseteq> {AStr (Prefix a @ k)} \<and>
   set (keys_sent (issued (Expire (logged conn) a k ttl (st, [])))) \<subseteq> {AStr (Prefix a @ k)} \<and>
   set (keys_sent (issued (Set (logged conn) a k v ttl (st, [])))) \<subseteq> {AStr (Prefix a @ k)} \<and>
   set (keys_sent (issued (SetString (logged conn) a k s ttl (st, [])))) \<subseteq> {AStr (Prefix a @ k)} \<and>
   set (keys_sent (issued (GetString (logged conn) a k (st, [])))) \<subseteq> {AStr (Prefix a @ k)} \<and>
   set (keys_sent (issued (Get (logged conn) a k (st, [])))) \<subseteq> {AStr (Prefix a @ k)} \<and>
   set (keys_sent (issued (SetNX (logged conn) a k v ttl (st, [])))) \<subseteq> {AStr (Prefix a @ k)} \<and>
   set (keys_sent (issued (Incr (logged conn) a k (st, [])))) \<subseteq> {AStr (Prefix a @ k)} \<and>
   set (keys_sent (issued (IncrBy (logged conn) a k n (st, [])))) \<subseteq> {AStr (Prefix a @ k)} \<and>
   set (keys_sent (issued (Decr (logged conn) a k (st, [])))) \<subseteq> {AStr (Prefix a @ k)} \<and>
   set (keys_sent (issued (DecrBy (logged conn) a k n (st, [])))) \<subseteq> {AStr (Prefix a @ k)} \<and>
   set (keys_sent (issued (HSet (logged conn) a k f v (st, [])))) \<subseteq> {AStr (Prefix a @ k)} \<and>
   set (keys_sent (issued (SetJSON marshal (logged conn) a k x ttl (st, [])))) \<subseteq> {AStr (Prefix a @ k)} \<and>
   set (keys_sent (issued (GetJSON unmarshal (logged conn) a k y (st, [])))) \<subseteq> {AStr (Prefix a @ k)} \<and>
   (p \<noteq> q \<longrightarrow>
      Prefix (fst (fst (New conn [WithPrefix p] st))) \<noteq>
      Prefix (fst (fst (New conn [WithPrefix q] st)))) \<and>
   (Prefix a \<noteq> Prefix b \<longrightarrow>
      prefixKey a k \<noteq> prefixKey b k \<and>
      fst (Get kv_conn b k (snd (Set kv_conn a k v ttl kv))) = fst (Get kv_conn b k kv) \<and>
      fst (Get kv_conn b k (snd (Del kv_conn a k kv))) = fst (Get kv_conn b k kv))"
proof -
  have ops:
    "set (keys_sent (issued (Exists (logged conn) a k (st, [])))) \<subseteq> {AStr (Prefix a @ k)}"
    "set (keys_sent (issued (Del (logged conn) a k (st, [])))) \<subseteq> {AStr (Prefix a @ k)}"
    "set (keys_sent (issued (Ttl (logged conn) a k (st, [])))) \<subseteq> {AStr (Prefix a @ k)}"
    "set (keys_sent (issued (Expire (logged conn) a k ttl (st, [])))) \<subseteq> {AStr (Prefix a @ k)}"
    "set (keys_sent (issued (Set (logged conn) a k v ttl (st, [])))) \<subseteq> {AStr (Prefix a @ k)}"
    "set (keys_sent (issued (SetString (logged conn) a k s ttl (st, [])))) \<subseteq> {AStr (Prefix a @ k)}"
    "set (keys_sent (issued (Incr (logged conn) a k (st, [])))) \<subseteq> {AStr (Prefix a @ k)}"
    "set (keys_sent (issued (IncrBy (logged conn) a k n (st, [])))) \<subseteq> {AStr (Prefix a @ k)}"
    "set (keys_sent (issued (Decr (logged conn) a k (st, [])))) \<subseteq> {AStr (Prefix a @ k)}"
    "set (keys_sent (issued (DecrBy (logged conn) a k n (st, [])))) \<subseteq> {AStr (Prefix a @ k)}"
    "set (keys_sent (issued (HSet (logged conn) a k f v (st, [])))) \<subseteq> {AStr (Prefix a @ k)}"
    by (simp_all add: Exists_def Del_def Ttl_def Expire_def Set_def SetString_def Incr_def
        IncrBy_def Decr_def DecrBy_def HSet_def keys_sent_def issued_def prefixKey_def
        logged_apply split_beta)
  have reads:
    "set (keys_sent (issued (GetString (logged conn) a k (st, [])))) \<subseteq> {AStr (Prefix a @ k)}"
    "set (keys_sent (issued (Get (logged conn) a k (st, [])))) \<subseteq> {AStr (Prefix a @ k)}"
    "set (keys_sent (issued (GetJSON unmarshal (logged conn) a k y (st, [])))) \<subseteq> {AStr (Prefix a @ k)}"
    by (simp_all add: GetString_def Get_def GetJSON_def keys_sent_def issued_def prefixKey_def
        logged_apply split_beta Let_def)
  have sets:
    "set (keys_sent (issued (SetNX (logged conn) a k v ttl (st, [])))) \<subseteq> {AStr (Prefix a @ k)}"
    "set (keys_sent (issued (SetJSON marshal (logged conn) a k x ttl (st, [])))) \<subseteq> {AStr (Prefix a @ k)}"
    by (simp_all add: SetNX_def SetJSON_def keys_sent_def issued_def prefixKey_def
        logged_apply split_beta Let_def)
  have apart: "prefixKey a k \<noteq> prefixKey b k" if "Prefix a \<noteq> Prefix b"
    using that by (simp add: prefixKey_def)
  have unseen:
    "fst (Get kv_conn b k (snd (Set kv_conn a k v ttl kv))) = fst (Get kv_conn b k kv)"
    "fst (Get kv_conn b k (snd (Del kv_conn a k kv))) = fst (Get kv_conn b k kv)"
    if "Prefix a \<noteq> Prefix b"
    using that by (simp_all add: kv_Get kv_Set_other kv_Del_other)
  have made: "Prefix (fst (fst (New conn [WithPrefix p] st))) \<noteq>
              Prefix (fst (fst (New conn [WithPrefix q] st)))" if "p \<noteq> q"
    using that by (simp add: New_WithPrefix)
  show ?thesis
    using ops reads sets made apart unseen by blast
qed

theorem point_operations_keep_to_their_prefix_witness:
  "set (keys_sent (issued (Set (logged kv_conn) \<lparr>Prefix = ''a:''\<rparr> ''x'' (AStr ''1'') 0 ([], [])))) \<subseteq>
     {AStr ''a:x''} \<and>
   Prefix (fst (fst (New kv_conn [WithPrefix ''a''] []))) \<noteq>
     Prefix (fst (fst (New kv_conn [WithPrefix ''b''] []))) \<and>
   prefixKey \<lparr>Prefix = ''a:''\<rparr> ''x'' \<noteq> prefixKey \<lparr>Prefix = ''b:''\<rparr> ''x'' \<and>
   fst (Get kv_conn \<lparr>Prefix = ''b:''\<rparr> ''x''
          (snd (Set kv_conn \<lparr>Prefix = ''a:''\<rparr> ''x'' (AStr ''1'') 0 [(''b:x'', ''2'')]))) =
     (Some ''2'', None) \<and>
   fst (Get kv_conn \<lparr>Prefix = ''b:''\<rparr> ''x''
          (snd (Del kv_conn \<lparr>Prefix = ''a:''\<rparr> ''x'' [(''b:x'', ''2'')]))) =
     (Some ''2'', None)"
proof -
  have "fst (Get kv_conn \<lparr>Prefix = ''b:''\<rparr> ''x'' [(''b:x'', ''2'')]) = (Some ''2'', None)"
    by (simp add: kv_Get)
  then show ?thesis
    using point_operations_keep_to_their_prefix
            [where a = "\<lparr>Prefix = ''a:''\<rparr>" and b = "\<lparr>Prefix = ''b:''\<rparr>" and k = "''x''"
               and v = "AStr ''1''" and ttl = 0 and kv = "[(''b:x'', ''2'')]"
               and conn = kv_conn and st = "[]" and s = "[]" and n = 0 and f = "[]"
               and marshal = "\<lambda>x::string. (x, None)" and x = "[]"
               and unmarshal = "\<lambda>(bs::string) (y::string). (bs, None)" and y = "[]"
               and p = "''a''" and q = "''b''"]
    by simp
qed

subsection \<open>JSON round trip\<close>

text \<open>
  A value that the serializer does not give back: an \<open>int64\<close> held in a variable of type
  \<open>any\<close> is stored as its digits and read back into a variable of type \<open>any\<close> as a
  \<open>float64\<close>. Both calls succeed, and the value read is not the value written.
\<close>

theorem SetJSON_GetJSON_changes_int64:
  "SetJSON json_Marshal kv_conn \<lparr>Prefix = ''p:''\<rparr> ''k'' (AnyInt64 1) 0 [] =
     (None, [(''p:k'', ''1'')]) \<and>
   GetJSON json_Unmarshal kv_conn \<lparr>Prefix = ''p:''\<rparr> ''k'' AnyNil [(''p:k'', ''1'')] =
     ((AnyFloat64 1, None), [(''p:k'', ''1'')]) \<and>
   AnyFloat64 1 \<noteq> AnyInt64 1"
  by code_simp

text \<open>
  C7, amended. For a value that the serializer encodes and decodes back to itself, on a
  store that accepts the SET and answers the GET of the same key with the bytes stored:
  \<open>SetJSON(k, x, 0)\<close> succeeds and \<open>GetJSON(k, &y)\<close> after it succeeds with y equal
  to x.
\<close>

theorem SetJSON_GetJSON_round_trip:
  assumes "marshal x = (bs, None)"
    and "unmarshal bs y = (x, None)"
    and "conn st (''SET'', [AStr (Prefix m @ k), ABytes bs]) = ((r, None), st1)"
    and "conn st1 (''GET'', [AStr (Prefix m @ k)]) = ((RBulk bs, None), st2)"
  shows "SetJSON marshal conn m k x 0 st = (None, st1) \<and>
         GetJSON unmarshal conn m k y st1 = ((x, None), st2)"
  using assms by (simp add: SetJSON_def GetJSON_def)

theorem SetJSON_GetJSON_round_trip_witness:
  "SetJSON json_Marshal kv_conn \<lparr>Prefix = ''p:''\<rparr> ''k'' (AnyFloat64 42) 0 [] =
     (None, [(''p:k'', ''42'')]) \<and>
   GetJSON json_Unmarshal kv_conn \<lparr>Prefix = ''p:''\<rparr> ''k'' AnyNil [(''p:k'', ''42'')] =
     ((AnyFloat64 42, None), [(''p:k'', ''42'')])"
proof -
  have m: "json_Marshal (AnyFloat64 42) = (''42'', None)"
    by code_simp
  have u: "json_Unmarshal ''42'' AnyNil = (AnyFloat64 42, None)"
    by code_simp
  have s: "kv_conn [] (''SET'', [AStr (Prefix \<lparr>Prefix = ''p:''\<rparr> @ ''k''), ABytes ''42'']) =
             ((RStatus ''OK'', None), [(''p:k'', ''42'')])"
    by (simp add: kv_conn_def)
  have g: "kv_conn [(''p:k'', ''42'')] (''GET'', [AStr (Prefix \<lparr>Prefix = ''p:''\<rparr> @ ''k'')]) =
             ((RBulk ''42'', None), [(''p:k'', ''42'')])"
    by (simp add: kv_conn_def)
  show ?thesis
    using SetJSON_GetJSON_round_trip
            [where marshal = json_Marshal and unmarshal = json_Unmarshal
               and conn = kv_conn and x = "AnyFloat64 42" and bs = "''42''" and y = AnyNil
               and st = "[]" and m = "\<lparr>Prefix = ''p:''\<rparr>" and k = "''k''"
               and r = "RStatus ''OK''"
               and ?st1.0 = "[(''p:k'', ''42'')]" and ?st2.0 = "[(''p:k'', ''42'')]"]
          m u s g
    by simp
qed

subsection \<open>Channel names\<close>

lemma prefixed_strings: "prefixed p (map AStr cs) = Some (map (\<lambda>c. AStr (p @ c)) cs)"
  by (induction cs) auto


lemma issued_Subscribe:
  "issued (Subscribe sentinel (logged conn) m (map AStr cs) (st, [])) =
     [(''SUBSCRIBE'', map (\<lambda>c. AStr (Prefix m @ c)) cs), (''UNSUBSCRIBE'', []),
      (''PUNSUBSCRIBE'', []), (''ECHO'', [ABytes sentinel])]"
  by (simp add: Subscribe_def conn_Close_def issued_def logged_apply split_beta prefixed_strings
      Let_def split: option.splits)

lemma issued_PSubscribe:
  "issued (PSubscribe sentinel (logged conn) m (map AStr cs) (st, [])) =
     [(''PSUBSCRIBE'', map (\<lambda>c. AStr (Prefix m @ c)) cs), (''UNSUBSCRIBE'', []),
      (''PUNSUBSCRIBE'', []), (''ECHO'', [ABytes sentinel])]"
  by (simp add: PSubscribe_def conn_Close_def issued_def logged_apply split_beta prefixed_strings
      Let_def split: option.splits)




lemma delivers_cancelled_subscription:
  "\<not> delivers pub [(name, chans), (''UNSUBSCRIBE'', []), (''PUNSUBSCRIBE'', []), (''ECHO'', e)]"
  by (simp add: delivers_def subscriptions_def subscribe_step_def)

text \<open>
  \<open>Subscribe\<close> and \<open>PSubscribe\<close> cancel their own subscription before they return:
  the deferred \<open>Close\<close> unsubscribes, so no message reaches the connection afterwards and
  the \<open>PubSubConn\<close> handed back is closed. \<open>SubscribeWithContext\<close> hands back an open
  one.
\<close>

lemma Subscribe_is_cancelled_on_return:
  "\<not> delivers pub (issued (Subscribe sentinel (logged conn) m (map AStr cs) (st, []))) \<and>
   \<not> delivers pub (issued (PSubscribe sentinel (logged conn) m (map AStr cs) (st, []))) \<and>
   (Subscribe sentinel conn m (map AStr cs) st = (Returns (Some psc, None), st') \<longrightarrow> closed psc) \<and>
   (SubscribeWithContext sentinel (Inr conn) m (map AStr cs) st = (Returns (Some psc, None), st')
      \<longrightarrow> \<not> closed psc)"
proof -
  have "\<not> delivers pub (issued (Subscribe sentinel (logged conn) m (map AStr cs) (st, [])))"
    "\<not> delivers pub (issued (PSubscribe sentinel (logged conn) m (map AStr cs) (st, [])))"
    by (simp_all only: issued_Subscribe issued_PSubscribe delivers_cancelled_subscription
        not_False_eq_True)
  moreover have "closed psc"
    if "Subscribe sentinel conn m (map AStr cs) st = (Returns (Some psc, None), st')"
    using that
    by (auto simp: Subscribe_def prefixed_strings split_beta Let_def split: option.splits)
  moreover have "\<not> closed psc"
    if "SubscribeWithContext sentinel (Inr conn) m (map AStr cs) st = (Returns (Some psc, None), st')"
    using that
    by (auto simp: SubscribeWithContext_def prefixed_strings split_beta Let_def
        split: option.splits)
  ultimately show ?thesis by blast
qed




end
